theory Spec2Isabelle
  imports Complex_Main
begin

section \<open>Numbers\<close>

text \<open>
  The program computes with JavaScript numbers, that is IEEE 754 binary64. A finite number
  is the real it denotes; the three non-finite results that a division by zero or an
  arithmetic operation on a missing array element produces are kept as values of their
  own, since the program compares and rounds them like any other number. Signed zero and
  overflow to infinity are not modelled.

  The unit economics engine rounds its results to kopecks and tests them against
  thresholds, where the last bit of an intermediate result decides. Its arithmetic is
  therefore modelled operation by operation: every sum, difference, product and quotient is
  the exact result rounded to the nearest binary64 number, ties to the even significand
  (\<open>fl\<close> below). The built-in strategies, the price arithmetic of the other actions and
  the condition evaluator are modelled on the exact reals.
\<close>

datatype jsnum = Fin real | PInf | NInf | NaN

definition js_div :: "real \<Rightarrow> real \<Rightarrow> jsnum" where
  \<comment> \<open>\<open>a / b\<close> on finite operands\<close>
  "js_div a b =
     (if b \<noteq> 0 then Fin (a / b)
      else if a > 0 then PInf
      else if a < 0 then NInf
      else NaN)"

fun js_apply :: "(real \<Rightarrow> real) \<Rightarrow> jsnum \<Rightarrow> jsnum" where
  \<comment> \<open>a rounding or scaling by a positive constant: non-finite values pass through\<close>
  "js_apply f (Fin x) = Fin (f x)"
| "js_apply f v = v"

fun js_lt :: "jsnum \<Rightarrow> jsnum \<Rightarrow> bool" where
  \<comment> \<open>\<open>a < b\<close>: every comparison with NaN is false\<close>
  "js_lt NaN _ = False"
| "js_lt _ NaN = False"
| "js_lt (Fin a) (Fin b) = (a < b)"
| "js_lt (Fin _) PInf = True"
| "js_lt NInf (Fin _) = True"
| "js_lt NInf PInf = True"
| "js_lt _ _ = False"

fun js_le :: "jsnum \<Rightarrow> jsnum \<Rightarrow> bool" where
  \<comment> \<open>\<open>a <= b\<close>\<close>
  "js_le NaN _ = False"
| "js_le _ NaN = False"
| "js_le (Fin a) (Fin b) = (a \<le> b)"
| "js_le NInf _ = True"
| "js_le _ PInf = True"
| "js_le _ _ = False"

fun js_max :: "jsnum \<Rightarrow> jsnum \<Rightarrow> jsnum" where
  \<comment> \<open>\<open>Math.max(a, b)\<close>: NaN if either argument is NaN\<close>
  "js_max NaN _ = NaN"
| "js_max _ NaN = NaN"
| "js_max PInf _ = PInf"
| "js_max _ PInf = PInf"
| "js_max NInf b = b"
| "js_max a NInf = a"
| "js_max (Fin a) (Fin b) = Fin (max a b)"

definition Math_round :: "real \<Rightarrow> real" where
  \<comment> \<open>\<open>Math.round\<close>: nearest integer, a tie goes up\<close>
  "Math_round x = of_int \<lfloor>x + 1 / 2\<rfloor>"

definition Math_ceil :: "real \<Rightarrow> real" where
  "Math_ceil x = of_int \<lceil>x\<rceil>"

subsection \<open>Rounding to binary64\<close>

definition round_even :: "real \<Rightarrow> int" where
  \<comment> \<open>the nearest integer, a tie goes to the even one\<close>
  "round_even y =
     (let f = \<lfloor>y\<rfloor>; d = y - of_int f
      in if d < 1 / 2 then f
         else if d > 1 / 2 then f + 1
         else if even f then f else f + 1)"

definition binade :: "real \<Rightarrow> int" where
  \<comment> \<open>the binary exponent of a number, held at the least normal exponent below it\<close>
  "binade x = max (- 1022) \<lfloor>log 2 \<bar>x\<bar>\<rfloor>"

definition ulp :: "real \<Rightarrow> real" where
  \<comment> \<open>the spacing of the binary64 numbers around \<open>x\<close>: 53 significant bits\<close>
  "ulp x = 2 powr (of_int (binade x) - 52)"

definition fl :: "real \<Rightarrow> real" where
  \<comment> \<open>the binary64 number nearest to \<open>x\<close>\<close>
  "fl x = (if x = 0 then 0 else of_int (round_even (x / ulp x)) * ulp x)"

definition js_fdiv :: "real \<Rightarrow> real \<Rightarrow> jsnum" where
  \<comment> \<open>\<open>a / b\<close> on binary64 operands\<close>
  "js_fdiv a b =
     (if b \<noteq> 0 then Fin (fl (a / b))
      else if a > 0 then PInf
      else if a < 0 then NInf
      else NaN)"

definition round2 :: "real \<Rightarrow> real" where
  \<comment> \<open>\<open>Math.round(x * 100) / 100\<close>\<close>
  "round2 x = fl (Math_round (fl (x * 100)) / 100)"

section \<open>Unit economics engine\<close>

record UnitEconomics =
  costPrice :: real
  wbCommission :: real
  logistics :: real
  storage :: real
  spp :: real
  tax :: real

datatype ConstraintType =
  MIN_PRICE | MAX_PRICE | MIN_PROFIT | MIN_MARGIN | MAX_DELTA_PER_STEP | MAX_CHANGES_PER_DAY

record Constraint =
  ctype :: ConstraintType
  cvalue :: real
  enabled :: bool

datatype error_type =
  below_breakeven | min_profit_violated | min_margin_violated
  | min_price_violated | max_price_exceeded

text \<open>The \<open>message\<close> text of a validation error is a rendering of the numbers already
  present in the result and is not modelled.\<close>

record PriceValidationError =
  etype :: error_type
  critical :: bool
  e_suggestedPrice :: "real option"

datatype exn =
  VariableCostsTooHigh  \<comment> \<open>'Variable costs >= 100%, breakeven impossible'\<close>
  | CannotAchieveTargetMargin  \<comment> \<open>'Cannot achieve target margin with current costs'\<close>
  | UnknownStrategyType  \<comment> \<open>'Unknown strategy type: ...'\<close>
  | ActionRequiresValue  \<comment> \<open>'Action "..." requires a value'\<close>
  | NoActionsDefined  \<comment> \<open>'No actions defined in strategy'\<close>

record PriceValidationResult =
  valid :: bool
  errors :: "PriceValidationError list"
  profit :: real
  margin :: jsnum
  breakeven :: real
  suggestedPrice :: "jsnum option"
  minAllowedPrice :: "jsnum option"

text \<open>\<open>rawProfit\<close> is the local \<open>profit\<close> of \<open>calculateProfit\<close>, before it is rounded to
  kopecks. The subtractions associate to the left, as written in the source.\<close>

definition rawProfit :: "real \<Rightarrow> UnitEconomics \<Rightarrow> real" where
  "rawProfit price economics =
     (let afterSPP = fl (price * fl (1 - fl (spp economics / 100)));
          commission = fl (afterSPP * fl (wbCommission economics / 100));
          tax' = fl (afterSPP * fl (tax economics / 100))
      in fl (fl (fl (fl (fl (afterSPP - costPrice economics) - commission)
                     - logistics economics) - storage economics) - tax'))"

definition calculateProfit :: "real \<Rightarrow> UnitEconomics \<Rightarrow> real" where
  "calculateProfit price economics = round2 (rawProfit price economics)"

definition calculateMargin :: "real \<Rightarrow> UnitEconomics \<Rightarrow> jsnum" where
  "calculateMargin price economics =
     (let profit' = calculateProfit price economics;
          margin' = js_apply (\<lambda>q. fl (q * 100)) (js_fdiv profit' price)
      in js_apply round2 margin')"

definition variableCostRate :: "UnitEconomics \<Rightarrow> real" where
  "variableCostRate economics =
     fl (fl (fl (wbCommission economics + spp economics) + tax economics) / 100)"

definition fixedCosts :: "UnitEconomics \<Rightarrow> real" where
  "fixedCosts economics =
     fl (fl (costPrice economics + logistics economics) + storage economics)"

definition calculateBreakeven :: "UnitEconomics \<Rightarrow> exn + real" where
  "calculateBreakeven economics =
     (if variableCostRate economics \<ge> 1 then Inl VariableCostsTooHigh
      else Inr (Math_ceil (fl (fixedCosts economics / fl (1 - variableCostRate economics)))))"

definition checkConstraint ::
  "Constraint \<Rightarrow> real \<Rightarrow> real \<Rightarrow> jsnum \<Rightarrow> real \<Rightarrow> PriceValidationError option" where
  "checkConstraint constraint price profit' margin' breakeven' =
     (case ctype constraint of
        MIN_PROFIT \<Rightarrow>
          if profit' < cvalue constraint
          then Some \<lparr>etype = min_profit_violated, critical = True,
                      e_suggestedPrice = Some (fl (breakeven' + cvalue constraint))\<rparr>
          else None
      | MIN_MARGIN \<Rightarrow>
          if js_lt margin' (Fin (cvalue constraint))
          then Some \<lparr>etype = min_margin_violated, critical = True, e_suggestedPrice = None\<rparr>
          else None
      | MIN_PRICE \<Rightarrow>
          if price < cvalue constraint
          then Some \<lparr>etype = min_price_violated, critical = True,
                      e_suggestedPrice = Some (cvalue constraint)\<rparr>
          else None
      | MAX_PRICE \<Rightarrow>
          if price > cvalue constraint
          then Some \<lparr>etype = max_price_exceeded, critical = False,
                      e_suggestedPrice = Some (cvalue constraint)\<rparr>
          else None
      | MAX_DELTA_PER_STEP \<Rightarrow> None
      | MAX_CHANGES_PER_DAY \<Rightarrow> None)"

text \<open>The loop of \<open>validatePrice\<close> over the constraints; \<open>errs\<close> is the array
  \<open>errors\<close> built so far.\<close>

fun constraintErrors ::
  "Constraint list \<Rightarrow> real \<Rightarrow> real \<Rightarrow> jsnum \<Rightarrow> real \<Rightarrow> PriceValidationError list
     \<Rightarrow> PriceValidationError list" where
  "constraintErrors [] price pr mg be errs = errs"
| "constraintErrors (c # cs) price pr mg be errs =
     (if \<not> enabled c then constraintErrors cs price pr mg be errs
      else case checkConstraint c price pr mg be of
             Some err \<Rightarrow> constraintErrors cs price pr mg be (errs @ [err])
           | None \<Rightarrow> constraintErrors cs price pr mg be errs)"

definition calculatePriceForProfit :: "UnitEconomics \<Rightarrow> real \<Rightarrow> jsnum" where
  "calculatePriceForProfit economics targetProfit =
     js_fdiv (fl (targetProfit + fixedCosts economics)) (fl (1 - variableCostRate economics))"

text \<open>\<open>marginDenominator\<close> is the local \<open>denominator\<close> of \<open>calculatePriceForMargin\<close>.\<close>

definition marginDenominator :: "UnitEconomics \<Rightarrow> real \<Rightarrow> real" where
  "marginDenominator economics targetMargin =
     fl (fl (1 - variableCostRate economics) - fl (targetMargin / 100))"

definition calculatePriceForMargin :: "UnitEconomics \<Rightarrow> real \<Rightarrow> exn + real" where
  "calculatePriceForMargin economics targetMargin =
     (let denominator = marginDenominator economics targetMargin
      in if denominator \<le> 0 then Inl CannotAchieveTargetMargin
         else Inr (fl (fixedCosts economics / denominator)))"

text \<open>The loop of \<open>calculateMinAllowedPrice\<close>; \<open>minPrice\<close> is the running maximum.\<close>

fun minAllowedLoop :: "UnitEconomics \<Rightarrow> Constraint list \<Rightarrow> jsnum \<Rightarrow> exn + jsnum" where
  "minAllowedLoop economics [] minPrice = Inr minPrice"
| "minAllowedLoop economics (c # cs) minPrice =
     (if \<not> enabled c then minAllowedLoop economics cs minPrice
      else case ctype c of
             MIN_PROFIT \<Rightarrow>
               minAllowedLoop economics cs
                 (js_max minPrice (calculatePriceForProfit economics (cvalue c)))
           | MIN_MARGIN \<Rightarrow>
               (case calculatePriceForMargin economics (cvalue c) of
                  Inl ex \<Rightarrow> Inl ex
                | Inr priceForMinMargin \<Rightarrow>
                    minAllowedLoop economics cs (js_max minPrice (Fin priceForMinMargin)))
           | MIN_PRICE \<Rightarrow> minAllowedLoop economics cs (js_max minPrice (Fin (cvalue c)))
           | _ \<Rightarrow> minAllowedLoop economics cs minPrice)"

definition calculateMinAllowedPrice :: "UnitEconomics \<Rightarrow> Constraint list \<Rightarrow> exn + jsnum" where
  "calculateMinAllowedPrice economics constraints =
     (case calculateBreakeven economics of
        Inl ex \<Rightarrow> Inl ex
      | Inr breakeven' \<Rightarrow>
          (case minAllowedLoop economics constraints (Fin breakeven') of
             Inl ex \<Rightarrow> Inl ex
           | Inr minPrice \<Rightarrow> Inr (js_apply Math_ceil minPrice)))"

definition addBreakevenError ::
  "real \<Rightarrow> real \<Rightarrow> PriceValidationError list \<Rightarrow> PriceValidationError list" where
  \<comment> \<open>the unconditional breakeven check of \<open>validatePrice\<close>\<close>
  "addBreakevenError proposedPrice breakeven' errs =
     (if proposedPrice < breakeven'
      then (let breakevenError = \<lparr>etype = below_breakeven, critical = True,
                                   e_suggestedPrice = Some breakeven'\<rparr>
            in if find (\<lambda>e. etype e = below_breakeven) errs = None
               then errs @ [breakevenError] else errs)
      else errs)"

definition validationErrors ::
  "real \<Rightarrow> UnitEconomics \<Rightarrow> Constraint list \<Rightarrow> real \<Rightarrow> PriceValidationError list" where
  \<comment> \<open>the array \<open>errors\<close> of \<open>validatePrice\<close> once both checks have run\<close>
  "validationErrors proposedPrice economics constraints breakeven' =
     addBreakevenError proposedPrice breakeven'
       (constraintErrors constraints proposedPrice (calculateProfit proposedPrice economics)
          (calculateMargin proposedPrice economics) breakeven' [])"

definition validatePrice ::
  "real \<Rightarrow> UnitEconomics \<Rightarrow> Constraint list \<Rightarrow> exn + PriceValidationResult" where
  "validatePrice proposedPrice economics constraints =
     (let profit' = calculateProfit proposedPrice economics;
          margin' = calculateMargin proposedPrice economics
      in case calculateBreakeven economics of
           Inl ex \<Rightarrow> Inl ex
         | Inr breakeven' \<Rightarrow>
             (let errs = validationErrors proposedPrice economics constraints breakeven'
              in if length errs > 0
                 then (case calculateMinAllowedPrice economics constraints of
                         Inl ex \<Rightarrow> Inl ex
                       | Inr minAllowed \<Rightarrow>
                           Inr \<lparr>valid = (length errs = 0), errors = errs, profit = profit',
                                margin = margin', breakeven = breakeven',
                                suggestedPrice = Some minAllowed,
                                minAllowedPrice = Some minAllowed\<rparr>)
                 else Inr \<lparr>valid = (length errs = 0), errors = errs, profit = profit',
                           margin = margin', breakeven = breakeven',
                           suggestedPrice = None, minAllowedPrice = None\<rparr>))"

section \<open>Evaluation context\<close>

record Competitor =
  c_price :: real
  priceWithDiscount :: real
  inStock :: bool

text \<open>\<open>competitors\<close> is \<open>None\<close> when the snapshot object has no competitor array (the
  field is not part of the declared context type; the orchestrator always supplies it).\<close>

record MarketData =
  minPrice :: real
  maxPrice :: real
  medianPrice :: real
  competitorCount :: real
  competitors :: "Competitor list option"

record SKU =
  sku_id :: string
  currentPrice :: real
  position :: "real option"
  economics :: UnitEconomics

record SKUContext =
  sku :: SKU
  marketData :: MarketData

text \<open>The \<open>reason\<close> text of a proposal is kept as the template that produced it.\<close>

datatype reason =
  ReasonSetPrice | ReasonIncreased | ReasonDecreased | ReasonFollowCompetitor
  | ReasonSetToMedian | ReasonSetToBreakeven
  | ReasonHoldNoCompetitorData | ReasonHoldCloseToMedian | ReasonCompetitorMedian
  | ReasonLeaderAlreadyTop3 | ReasonLeaderUndercut
  | ReasonMarginRaise | ReasonMarginKeep

record PriceProposal =
  price :: jsnum
  reason :: reason
  confidence :: "real option"

text \<open>The snapshot the orchestrator's \<open>getMarketData\<close> substitutes when no market data row
  exists for the SKU.\<close>

definition defaultMarketData :: MarketData where
  "defaultMarketData =
     \<lparr>minPrice = 0, maxPrice = 0, medianPrice = 0, competitorCount = 0,
      competitors = Some []\<rparr>"

section \<open>Condition evaluator\<close>

datatype ConditionOperator = EQUALS | NOT_EQUALS | GREATER_THAN | GREATER_THAN_OR_EQUAL
  | LESS_THAN | LESS_THAN_OR_EQUAL | IN_LIST | NOT_IN

datatype cond_value = CNum real | CStr string | CArr "real list"

text \<open>The optional \<open>and\<close> and \<open>or\<close> arrays are lists; an absent array is the empty list
  (the evaluator treats both alike).\<close>

datatype Condition =
  Condition (metric: string) (operator: ConditionOperator) (expected: cond_value)
            (and_list: "Condition list") (or_list: "Condition list")

datatype metric_value = Undefined | Null | Number jsnum

definition ce_calculateProfit :: "real \<Rightarrow> UnitEconomics \<Rightarrow> real" where
  \<comment> \<open>the evaluator's own, unrounded profit\<close>
  "ce_calculateProfit price' ec =
     (let afterSPP = price' * (1 - spp ec / 100);
          commission = afterSPP * (wbCommission ec / 100);
          tax' = afterSPP * (tax ec / 100)
      in afterSPP - costPrice ec - commission - logistics ec - storage ec - tax')"

definition ce_calculateMargin :: "real \<Rightarrow> UnitEconomics \<Rightarrow> jsnum" where
  "ce_calculateMargin price' ec =
     js_apply (\<lambda>q. q * 100) (js_div (ce_calculateProfit price' ec) price')"

definition getMetricValue :: "string \<Rightarrow> SKUContext \<Rightarrow> metric_value" where
  "getMetricValue m ctx =
     (if m = ''position'' then (case position (sku ctx) of None \<Rightarrow> Null
                                | Some p \<Rightarrow> Number (Fin p))
      else if m = ''my_price'' \<or> m = ''current_price'' then Number (Fin (currentPrice (sku ctx)))
      else if m = ''competitor_min_price'' then Number (Fin (minPrice (marketData ctx)))
      else if m = ''competitor_max_price'' then Number (Fin (maxPrice (marketData ctx)))
      else if m = ''competitor_median_price'' then Number (Fin (medianPrice (marketData ctx)))
      else if m = ''competitor_count'' then Number (Fin (competitorCount (marketData ctx)))
      else if m = ''margin''
        then Number (ce_calculateMargin (currentPrice (sku ctx)) (economics (sku ctx)))
      else if m = ''profit''
        then Number (Fin (ce_calculateProfit (currentPrice (sku ctx)) (economics (sku ctx))))
      else Undefined)"

text \<open>An ordering comparison converts a non-numeric expected value to a number first. The
  conversion of a string is the language runtime's and is passed in as \<open>toNumber\<close>; an
  array converts through its comma-joined text.\<close>

fun expectedNumber :: "(string \<Rightarrow> jsnum) \<Rightarrow> cond_value \<Rightarrow> jsnum" where
  "expectedNumber toNumber (CNum x) = Fin x"
| "expectedNumber toNumber (CStr s) = toNumber s"
| "expectedNumber toNumber (CArr []) = Fin 0"
| "expectedNumber toNumber (CArr [x]) = Fin x"
| "expectedNumber toNumber (CArr _) = NaN"

fun strictEquals :: "jsnum \<Rightarrow> cond_value \<Rightarrow> bool" where
  \<comment> \<open>\<open>actual === expected\<close> for a numeric \<open>actual\<close>\<close>
  "strictEquals (Fin a) (CNum x) = (a = x)"
| "strictEquals _ _ = False"

fun arrayIncludes :: "cond_value \<Rightarrow> jsnum \<Rightarrow> bool" where
  \<comment> \<open>\<open>Array.isArray(expected) && expected.includes(actual)\<close>\<close>
  "arrayIncludes (CArr xs) (Fin a) = (a \<in> set xs)"
| "arrayIncludes _ _ = False"

fun isArray :: "cond_value \<Rightarrow> bool" where
  "isArray (CArr _) = True"
| "isArray _ = False"

definition evaluateOperator ::
  "(string \<Rightarrow> jsnum) \<Rightarrow> jsnum \<Rightarrow> ConditionOperator \<Rightarrow> cond_value \<Rightarrow> bool" where
  "evaluateOperator toNumber actual op ex =
     (case op of
        EQUALS \<Rightarrow> strictEquals actual ex
      | NOT_EQUALS \<Rightarrow> \<not> strictEquals actual ex
      | GREATER_THAN \<Rightarrow> js_lt (expectedNumber toNumber ex) actual
      | GREATER_THAN_OR_EQUAL \<Rightarrow> js_le (expectedNumber toNumber ex) actual
      | LESS_THAN \<Rightarrow> js_lt actual (expectedNumber toNumber ex)
      | LESS_THAN_OR_EQUAL \<Rightarrow> js_le actual (expectedNumber toNumber ex)
      | IN_LIST \<Rightarrow> isArray ex \<and> arrayIncludes ex actual
      | NOT_IN \<Rightarrow> isArray ex \<and> \<not> arrayIncludes ex actual)"

text \<open>\<open>evaluate\<close> with its two loops: \<open>allPass\<close> runs over the \<open>and\<close> array and stops at
  the first failing child, \<open>anyPass\<close> runs over the \<open>or\<close> array and stops at the first
  passing child.\<close>

fun evaluate :: "(string \<Rightarrow> jsnum) \<Rightarrow> SKUContext \<Rightarrow> Condition \<Rightarrow> bool"
  and allPass :: "(string \<Rightarrow> jsnum) \<Rightarrow> SKUContext \<Rightarrow> Condition list \<Rightarrow> bool"
  and anyPass :: "(string \<Rightarrow> jsnum) \<Rightarrow> SKUContext \<Rightarrow> Condition list \<Rightarrow> bool" where
  "evaluate toNumber ctx (Condition m op ex ands ors) =
     (case getMetricValue m ctx of
        Undefined \<Rightarrow> False
      | Null \<Rightarrow> False
      | Number actualValue \<Rightarrow>
          (let result = evaluateOperator toNumber actualValue op ex
           in if ands \<noteq> [] \<and> \<not> allPass toNumber ctx ands then False
              else if ors \<noteq> [] \<and> \<not> anyPass toNumber ctx ors then False
              else result))"
| "allPass toNumber ctx [] = True"
| "allPass toNumber ctx (c # cs) =
     (if \<not> evaluate toNumber ctx c then False else allPass toNumber ctx cs)"
| "anyPass toNumber ctx [] = False"
| "anyPass toNumber ctx (c # cs) =
     (if evaluate toNumber ctx c then True else anyPass toNumber ctx cs)"

section \<open>Action executor\<close>

datatype ActionType = SET_PRICE | INCREASE_PRICE | DECREASE_PRICE | FOLLOW_COMPETITOR
  | SET_TO_MEDIAN | SET_TO_BREAKEVEN

datatype action_mode = percentage | absolute

record Action =
  atype :: ActionType
  avalue :: "real option"
  mode :: "action_mode option"

definition missingValue :: "real option \<Rightarrow> bool" where
  \<comment> \<open>\<open>!action.value\<close>: absent or zero\<close>
  "missingValue v = (v = None \<or> v = Some 0)"

definition setPrice :: "Action \<Rightarrow> SKUContext \<Rightarrow> exn + PriceProposal" where
  "setPrice action ctx =
     (if missingValue (avalue action) then Inl ActionRequiresValue
      else Inr \<lparr>price = Fin (the (avalue action)), reason = ReasonSetPrice,
                confidence = None\<rparr>)"

definition increasePrice :: "Action \<Rightarrow> SKUContext \<Rightarrow> exn + PriceProposal" where
  "increasePrice action ctx =
     (let currentPrice' = currentPrice (sku ctx)
      in if missingValue (avalue action) then Inl ActionRequiresValue
         else (let delta = (if mode action = Some percentage
                            then currentPrice' * (the (avalue action) / 100)
                            else the (avalue action));
                   newPrice = currentPrice' + delta
               in Inr \<lparr>price = Fin newPrice, reason = ReasonIncreased, confidence = None\<rparr>))"

definition decreasePrice :: "Action \<Rightarrow> SKUContext \<Rightarrow> exn + PriceProposal" where
  "decreasePrice action ctx =
     (let currentPrice' = currentPrice (sku ctx)
      in if missingValue (avalue action) then Inl ActionRequiresValue
         else (let delta = (if mode action = Some percentage
                            then currentPrice' * (the (avalue action) / 100)
                            else the (avalue action));
                   newPrice = currentPrice' - delta
               in Inr \<lparr>price = Fin newPrice, reason = ReasonDecreased, confidence = None\<rparr>))"

definition followCompetitor :: "Action \<Rightarrow> SKUContext \<Rightarrow> PriceProposal" where
  "followCompetitor action ctx =
     (let targetPrice = minPrice (marketData ctx);
          delta = (case avalue action of None \<Rightarrow> 0 | Some v \<Rightarrow> v);
          newPrice = (if mode action = Some percentage
                      then targetPrice * (1 - delta / 100)
                      else targetPrice - delta)
      in \<lparr>price = Fin newPrice, reason = ReasonFollowCompetitor, confidence = None\<rparr>)"

definition setToMedian :: "SKUContext \<Rightarrow> PriceProposal" where
  "setToMedian ctx =
     \<lparr>price = Fin (medianPrice (marketData ctx)), reason = ReasonSetToMedian,
      confidence = None\<rparr>"

definition setToBreakeven :: "SKUContext \<Rightarrow> PriceProposal" where
  "setToBreakeven ctx =
     (let ec = economics (sku ctx);
          breakeven' = js_apply Math_ceil
                         (js_fdiv (fixedCosts ec) (fl (1 - variableCostRate ec)))
      in \<lparr>price = breakeven', reason = ReasonSetToBreakeven, confidence = None\<rparr>)"

text \<open>The six action types are all handled; the \<open>default\<close> branch of the \<open>switch\<close> is not
  reached by an action of the declared type.\<close>

definition ActionExecutor_execute :: "Action \<Rightarrow> SKUContext \<Rightarrow> exn + PriceProposal" where
  "ActionExecutor_execute action ctx =
     (case atype action of
        SET_PRICE \<Rightarrow> setPrice action ctx
      | INCREASE_PRICE \<Rightarrow> increasePrice action ctx
      | DECREASE_PRICE \<Rightarrow> decreasePrice action ctx
      | FOLLOW_COMPETITOR \<Rightarrow> Inr (followCompetitor action ctx)
      | SET_TO_MEDIAN \<Rightarrow> Inr (setToMedian ctx)
      | SET_TO_BREAKEVEN \<Rightarrow> Inr (setToBreakeven ctx))"

section \<open>Built-in strategies\<close>

definition median :: "real list \<Rightarrow> jsnum" where
  \<comment> \<open>\<open>BaseStrategy.median\<close>; on the empty array both reads are out of range and the
      sum of two missing elements is NaN\<close>
  "median arr =
     (let sorted = sort arr; mid = length sorted div 2
      in if length sorted mod 2 = 0
         then (if sorted = [] then NaN
               else Fin ((sorted ! (mid - 1) + sorted ! mid) / 2))
         else Fin (sorted ! mid))"

definition removeLowest :: "real list \<Rightarrow> real \<Rightarrow> real list" where
  \<comment> \<open>\<open>BaseStrategy.removeLowest\<close>; \<open>slice\<close> with a negative count keeps that many
      elements from the end\<close>
  "removeLowest arr percent =
     (let sorted = sort arr;
          removeCount = \<lceil>real (length sorted) * percent\<rceil>
      in if removeCount \<ge> 0 then drop (nat removeCount) sorted
         else drop (length sorted - nat (- removeCount)) sorted)"

subsection \<open>Price leader\<close>

definition PriceLeader_execute :: "SKUContext \<Rightarrow> PriceProposal" where
  "PriceLeader_execute ctx =
     (let currentPosition = position (sku ctx)
      in if currentPosition \<noteq> None \<and> the currentPosition \<le> 3
         then \<lparr>price = Fin (currentPrice (sku ctx)), reason = ReasonLeaderAlreadyTop3,
               confidence = Some (9 / 10)\<rparr>
         else (let minCompetitorPrice = minPrice (marketData ctx);
                   targetPrice = minCompetitorPrice * (98 / 100);
                   maxDelta = currentPrice (sku ctx) * (1 / 10);
                   actualPrice = max targetPrice (currentPrice (sku ctx) - maxDelta)
               in \<lparr>price = Fin actualPrice, reason = ReasonLeaderUndercut,
                   confidence = Some (7 / 10)\<rparr>))"

subsection \<open>Margin maximizer\<close>

definition MarginMaximizer_execute :: "SKUContext \<Rightarrow> PriceProposal" where
  "MarginMaximizer_execute ctx =
     (let currentPrice' = currentPrice (sku ctx);
          position' = position (sku ctx);
          isStrongPosition = (position' \<noteq> None \<and> the position' \<le> 5)
      in if isStrongPosition
         then (let increasePercent = 2 / 100;
                   targetPrice = currentPrice' * (1 + increasePercent);
                   maxPrice' = medianPrice (marketData ctx) * (11 / 10);
                   actualPrice = min targetPrice maxPrice'
               in \<lparr>price = Fin actualPrice, reason = ReasonMarginRaise,
                   confidence = Some (8 / 10)\<rparr>)
         else \<lparr>price = Fin currentPrice', reason = ReasonMarginKeep,
               confidence = Some (6 / 10)\<rparr>)"

subsection \<open>Competitive hold, on the competitors of the snapshot\<close>

definition getCompetitorPrices :: "MarketData \<Rightarrow> real list" where
  "getCompetitorPrices md =
     (case competitors md of
        Some cs \<Rightarrow> map priceWithDiscount
                    (filter (\<lambda>c. inStock c \<and> priceWithDiscount c > 0) cs)
      | None \<Rightarrow> if medianPrice md > 0 then [medianPrice md] else [])"

definition CompetitiveHold_execute :: "SKUContext \<Rightarrow> PriceProposal" where
  "CompetitiveHold_execute ctx =
     (let prices = getCompetitorPrices (marketData ctx)
      in if length prices = 0
         then \<lparr>price = Fin (currentPrice (sku ctx)), reason = ReasonHoldNoCompetitorData,
               confidence = Some (3 / 10)\<rparr>
         else (let filtered = removeLowest prices (2 / 10);
                   targetPrice = median filtered;
                   currentPrice' = currentPrice (sku ctx);
                   delta = (case targetPrice of
                              Fin t \<Rightarrow> js_div \<bar>t - currentPrice'\<bar> currentPrice'
                            | _ \<Rightarrow> NaN)
               in if js_lt delta (Fin (2 / 100))
                  then \<lparr>price = Fin currentPrice', reason = ReasonHoldCloseToMedian,
                        confidence = Some (7 / 10)\<rparr>
                  else \<lparr>price = js_apply Math_round targetPrice,
                        reason = ReasonCompetitorMedian, confidence = Some (8 / 10)\<rparr>))"

subsection \<open>Competitive hold, on generated prices\<close>

text \<open>The class of the same name in \<open>strategies/CompetitiveHoldStrategy.ts\<close>, the file the
  strategy engine imports. It draws ten prices with \<open>Math.random()\<close>; \<open>rnd i\<close> is the value
  returned by the \<open>i\<close>-th call, a number in \<open>[0, 1)\<close>.\<close>

definition generateTopPrices :: "(nat \<Rightarrow> real) \<Rightarrow> MarketData \<Rightarrow> real list" where
  "generateTopPrices rnd md =
     (let range = maxPrice md - minPrice md
      in map (\<lambda>i. minPrice md + rnd i * range) [0..<10])"

definition CompetitiveHoldGenerated_execute :: "(nat \<Rightarrow> real) \<Rightarrow> SKUContext \<Rightarrow> PriceProposal" where
  "CompetitiveHoldGenerated_execute rnd ctx =
     (let topPrices = generateTopPrices rnd (marketData ctx);
          filtered = removeLowest topPrices (2 / 10);
          targetPrice = median filtered
      in \<lparr>price = targetPrice, reason = ReasonCompetitorMedian, confidence = Some (8 / 10)\<rparr>)"

section \<open>Strategy engine\<close>

datatype StrategyType = COMPETITIVE_HOLD | PRICE_LEADER | MARGIN_MAXIMIZER
  | INVENTORY_DRIVEN | CLEARANCE

datatype StopConditionType = price_reached | time_elapsed | position_reached | stock_level

record StopCondition =
  sc_type :: StopConditionType
  sc_value :: real

record Strategy =
  strategy_id :: string
  stype :: StrategyType
  active :: bool
  conditions :: "Condition list"
  actions :: "Action list"
  constraints :: "Constraint list"
  stopConditions :: "StopCondition list"
  cooldownMinutes :: int
  maxChangesPerDay :: int

definition evaluateStopCondition :: "StopCondition \<Rightarrow> SKUContext \<Rightarrow> bool" where
  "evaluateStopCondition stopCondition ctx =
     (case sc_type stopCondition of
        price_reached \<Rightarrow> currentPrice (sku ctx) \<le> sc_value stopCondition
      | position_reached \<Rightarrow>
          position (sku ctx) \<noteq> None \<and> the (position (sku ctx)) \<le> sc_value stopCondition
      | time_elapsed \<Rightarrow> False
      | stock_level \<Rightarrow> False)"

fun stopLoop :: "StopCondition list \<Rightarrow> SKUContext \<Rightarrow> bool" where
  "stopLoop [] ctx = False"
| "stopLoop (sc # scs) ctx = (if evaluateStopCondition sc ctx then True else stopLoop scs ctx)"

definition checkStopConditions :: "Strategy \<Rightarrow> SKUContext \<Rightarrow> bool" where
  "checkStopConditions strategy ctx =
     (if length (stopConditions strategy) = 0 then False
      else stopLoop (stopConditions strategy) ctx)"

definition evaluateConditions ::
  "(string \<Rightarrow> jsnum) \<Rightarrow> Condition list \<Rightarrow> SKUContext \<Rightarrow> bool" where
  "evaluateConditions toNumber conds ctx =
     (if length conds = 0 then True else allPass toNumber ctx conds)"

definition executeActions :: "Action list \<Rightarrow> SKUContext \<Rightarrow> exn + PriceProposal" where
  "executeActions acts ctx =
     (case acts of
        [] \<Rightarrow> Inl NoActionsDefined
      | action # _ \<Rightarrow> ActionExecutor_execute action ctx)"

definition executeStrategyByType ::
  "(nat \<Rightarrow> real) \<Rightarrow> Strategy \<Rightarrow> SKUContext \<Rightarrow> exn + PriceProposal" where
  "executeStrategyByType rnd strategy ctx =
     (case stype strategy of
        COMPETITIVE_HOLD \<Rightarrow> Inr (CompetitiveHoldGenerated_execute rnd ctx)
      | PRICE_LEADER \<Rightarrow> Inr (PriceLeader_execute ctx)
      | MARGIN_MAXIMIZER \<Rightarrow> Inr (MarginMaximizer_execute ctx)
      | INVENTORY_DRIVEN \<Rightarrow> Inl UnknownStrategyType
      | CLEARANCE \<Rightarrow> Inl UnknownStrategyType)"

text \<open>\<open>evaluateStrategy\<close>: \<open>Inr None\<close> is the \<open>null\<close> result (no proposal).\<close>

definition evaluateStrategy ::
  "(string \<Rightarrow> jsnum) \<Rightarrow> (nat \<Rightarrow> real) \<Rightarrow> SKUContext \<Rightarrow> Strategy
     \<Rightarrow> exn + PriceProposal option" where
  "evaluateStrategy toNumber rnd ctx strategy =
     (if \<not> active strategy then Inr None
      else if checkStopConditions strategy ctx then Inr None
      else if length (conditions strategy) > 0
              \<and> \<not> evaluateConditions toNumber (conditions strategy) ctx then Inr None
      else (case (if length (actions strategy) > 0
                  then executeActions (actions strategy) ctx
                  else executeStrategyByType rnd strategy ctx) of
              Inl ex \<Rightarrow> Inl ex
            | Inr proposal \<Rightarrow> Inr (Some proposal)))"

section \<open>Stored state\<close>

text \<open>The tables the signal processor and the attachment routes read and write. Times are
  milliseconds since the epoch. Rows are kept in a list in table order; a query without an
  ordering returns the first matching row.\<close>

record StrategyRow = Strategy +
  userId :: string

record SKURow =
  skuRow_id :: string
  skuRow_userId :: string

record SKUStrategy =
  ss_skuId :: string
  ss_strategyId :: string
  ss_active :: bool

record PriceHistory =
  ph_skuId :: string
  ph_time :: int

record Database =
  strategyTable :: "StrategyRow list"
  skuTable :: "SKURow list"
  skuStrategyTable :: "SKUStrategy list"
  priceHistoryTable :: "PriceHistory list"

section \<open>Signal processor: cooldown gate\<close>

definition DEFAULT_COOLDOWN_MINUTES :: int where
  "DEFAULT_COOLDOWN_MINUTES = 360"

fun latestOf :: "PriceHistory list \<Rightarrow> PriceHistory option \<Rightarrow> PriceHistory option" where
  \<comment> \<open>the row with the greatest \<open>time\<close> (\<open>orderBy: { time: 'desc' }\<close>, first row)\<close>
  "latestOf [] best = best"
| "latestOf (r # rs) best =
     (case best of
        None \<Rightarrow> latestOf rs (Some r)
      | Some b \<Rightarrow> if ph_time r > ph_time b then latestOf rs (Some r) else latestOf rs best)"

definition findLastChange :: "Database \<Rightarrow> string \<Rightarrow> PriceHistory option" where
  "findLastChange db skuId =
     latestOf (filter (\<lambda>r. ph_skuId r = skuId) (priceHistoryTable db)) None"

definition findActiveStrategy :: "Database \<Rightarrow> string \<Rightarrow> StrategyRow option" where
  \<comment> \<open>\<open>sKUStrategy.findFirst({ where: { skuId, active: true }, include: { strategy: true } })\<close>;
      the foreign key makes the joined strategy exist\<close>
  "findActiveStrategy db skuId =
     (case find (\<lambda>r. ss_skuId r = skuId \<and> ss_active r) (skuStrategyTable db) of
        None \<Rightarrow> None
      | Some r \<Rightarrow> find (\<lambda>s. strategy_id s = ss_strategyId r) (strategyTable db))"

definition getCooldownPeriod :: "Database \<Rightarrow> string \<Rightarrow> int" where
  \<comment> \<open>\<open>skuStrategy?.strategy.cooldownMinutes || DEFAULT_COOLDOWN_MINUTES\<close>: the default
      is taken when there is no active strategy and when the stored number is 0\<close>
  "getCooldownPeriod db skuId =
     (let minutes = (case findActiveStrategy db skuId of
                       None \<Rightarrow> DEFAULT_COOLDOWN_MINUTES
                     | Some s \<Rightarrow> if cooldownMinutes s = 0 then DEFAULT_COOLDOWN_MINUTES
                                else cooldownMinutes s)
      in minutes * 60 * 1000)"

definition checkCooldown :: "Database \<Rightarrow> int \<Rightarrow> string \<Rightarrow> bool" where
  \<comment> \<open>\<open>now\<close> is \<open>Date.now()\<close>; \<open>True\<close> admits the signal\<close>
  "checkCooldown db now skuId =
     (case findLastChange db skuId of
        None \<Rightarrow> True
      | Some lastChange \<Rightarrow>
          (let cooldownPeriod = getCooldownPeriod db skuId;
               timeSince = now - ph_time lastChange
           in timeSince \<ge> cooldownPeriod))"

section \<open>Attachments of strategies to SKUs\<close>

datatype response = OK | Unauthorized | NotFound | InternalServerError

definition findStrategyOfUser :: "Database \<Rightarrow> string \<Rightarrow> string \<Rightarrow> StrategyRow option" where
  "findStrategyOfUser db sid uid =
     find (\<lambda>s. strategy_id s = sid \<and> userId s = uid) (strategyTable db)"

definition findSKUOfUser :: "Database \<Rightarrow> string \<Rightarrow> string \<Rightarrow> SKURow option" where
  "findSKUOfUser db skuId uid =
     find (\<lambda>k. skuRow_id k = skuId \<and> skuRow_userId k = uid) (skuTable db)"

definition hasAttachment :: "SKUStrategy list \<Rightarrow> string \<Rightarrow> string \<Rightarrow> bool" where
  "hasAttachment rows skuId sid =
     (find (\<lambda>r. ss_skuId r = skuId \<and> ss_strategyId r = sid) rows \<noteq> None)"

definition deactivateAll :: "SKUStrategy list \<Rightarrow> string \<Rightarrow> SKUStrategy list" where
  \<comment> \<open>\<open>updateMany({ where: { skuId }, data: { active: false } })\<close>\<close>
  "deactivateAll rows skuId =
     map (\<lambda>r. if ss_skuId r = skuId then r\<lparr>ss_active := False\<rparr> else r) rows"

definition setActive :: "SKUStrategy list \<Rightarrow> string \<Rightarrow> string \<Rightarrow> SKUStrategy list" where
  \<comment> \<open>the \<open>update\<close> branch of the upsert on the unique key \<open>(skuId, strategyId)\<close>\<close>
  "setActive rows skuId sid =
     map (\<lambda>r. if ss_skuId r = skuId \<and> ss_strategyId r = sid
                then r\<lparr>ss_active := True\<rparr> else r) rows"

definition attachToSKU ::
  "string option \<Rightarrow> string \<Rightarrow> string \<Rightarrow> Database \<Rightarrow> response \<times> Database" where
  "attachToSKU user sid skuId db =
     (case user of
        None \<Rightarrow> (Unauthorized, db)
      | Some uid \<Rightarrow>
          if findStrategyOfUser db sid uid = None then (NotFound, db)
          else if findSKUOfUser db skuId uid = None then (NotFound, db)
          else if hasAttachment (skuStrategyTable db) skuId sid then (OK, db)
          else (OK, db\<lparr>skuStrategyTable := skuStrategyTable db
                          @ [\<lparr>ss_skuId = skuId, ss_strategyId = sid, ss_active = False\<rparr>]\<rparr>))"

text \<open>\<open>activateForSKU\<close> checks the owner of the strategy only, and then issues two writes,
  each awaited on its own and not enclosed in a transaction: first the deactivation of
  every attachment of the SKU, then the upsert of the chosen one. When the upsert has to
  create the row, the foreign keys reject it if the SKU or the strategy does not exist;
  the handler then answers with status 500 and the deactivation stays written.\<close>

definition deactivateStatement :: "string \<Rightarrow> Database \<Rightarrow> Database" where
  "deactivateStatement skuId db =
     db\<lparr>skuStrategyTable := deactivateAll (skuStrategyTable db) skuId\<rparr>"

definition upsertStatement :: "string \<Rightarrow> string \<Rightarrow> Database \<Rightarrow> response \<times> Database" where
  "upsertStatement sid skuId db =
     (let rows = skuStrategyTable db
      in if hasAttachment rows skuId sid
         then (OK, db\<lparr>skuStrategyTable := setActive rows skuId sid\<rparr>)
         else if find (\<lambda>k. skuRow_id k = skuId) (skuTable db) = None
                 \<or> find (\<lambda>s. strategy_id s = sid) (strategyTable db) = None
         then (InternalServerError, db)
         else (OK, db\<lparr>skuStrategyTable := rows
                  @ [\<lparr>ss_skuId = skuId, ss_strategyId = sid, ss_active = True\<rparr>]\<rparr>))"

text \<open>The handler when no other request writes between its statements.\<close>

definition activateForSKU ::
  "string option \<Rightarrow> string \<Rightarrow> string \<Rightarrow> Database \<Rightarrow> response \<times> Database" where
  "activateForSKU user sid skuId db =
     (case user of
        None \<Rightarrow> (Unauthorized, db)
      | Some uid \<Rightarrow>
          if findStrategyOfUser db sid uid = None then (NotFound, db)
          else upsertStatement sid skuId (deactivateStatement skuId db))"

definition deleteStrategy :: "string option \<Rightarrow> string \<Rightarrow> Database \<Rightarrow> response \<times> Database" where
  \<comment> \<open>the attachments of the strategy go with it (\<open>ON DELETE CASCADE\<close>)\<close>
  "deleteStrategy user sid db =
     (case user of
        None \<Rightarrow> (Unauthorized, db)
      | Some uid \<Rightarrow>
          if findStrategyOfUser db sid uid = None then (NotFound, db)
          else (OK, db\<lparr>strategyTable := filter (\<lambda>s. strategy_id s \<noteq> sid) (strategyTable db),
                        skuStrategyTable :=
                          filter (\<lambda>r. ss_strategyId r \<noteq> sid) (skuStrategyTable db)\<rparr>))"

definition deleteSKU :: "string option \<Rightarrow> string \<Rightarrow> Database \<Rightarrow> response \<times> Database" where
  \<comment> \<open>attachments and price history of the SKU go with it (\<open>ON DELETE CASCADE\<close>)\<close>
  "deleteSKU user skuId db =
     (case user of
        None \<Rightarrow> (Unauthorized, db)
      | Some uid \<Rightarrow>
          if findSKUOfUser db skuId uid = None then (NotFound, db)
          else (OK, db\<lparr>skuTable := filter (\<lambda>k. skuRow_id k \<noteq> skuId) (skuTable db),
                        skuStrategyTable :=
                          filter (\<lambda>r. ss_skuId r \<noteq> skuId) (skuStrategyTable db),
                        priceHistoryTable :=
                          filter (\<lambda>r. ph_skuId r \<noteq> skuId) (priceHistoryTable db)\<rparr>))"

text \<open>Requests are served concurrently: between two awaited statements of one request the
  statements of other requests may run. A state pairs the database with the activation
  requests that have written their deactivation and still owe their upsert, each recorded
  as (strategy, SKU). The rules are the statements of the attachment routes and of the two
  delete handlers, which write once. The update handlers of strategies and SKUs pass the
  request body to the database layer unchecked and may write the table as well; they are
  not among the rules, so the relation holds of fewer states than the table can reach.\<close>

inductive reachable :: "Database \<times> (string \<times> string) list \<Rightarrow> bool" where
  initial: "skuStrategyTable db = [] \<Longrightarrow> reachable (db, [])"
| attach: "reachable (db, pending) \<Longrightarrow> reachable (snd (attachToSKU user sid skuId db), pending)"
| activate_first:
    "reachable (db, pending) \<Longrightarrow> findStrategyOfUser db sid uid \<noteq> None
     \<Longrightarrow> reachable (deactivateStatement skuId db, pending @ [(sid, skuId)])"
| activate_second:
    "reachable (db, pending) \<Longrightarrow> (sid, skuId) \<in> set pending
     \<Longrightarrow> reachable (snd (upsertStatement sid skuId db), remove1 (sid, skuId) pending)"
| delete_strategy:
    "reachable (db, pending) \<Longrightarrow> reachable (snd (deleteStrategy user sid db), pending)"
| delete_sku:
    "reachable (db, pending) \<Longrightarrow> reachable (snd (deleteSKU user skuId db), pending)"

definition activeAttachments :: "Database \<Rightarrow> string \<Rightarrow> SKUStrategy list" where
  "activeAttachments db skuId =
     filter (\<lambda>r. ss_skuId r = skuId \<and> ss_active r) (skuStrategyTable db)"

section \<open>Concrete inputs\<close>

text \<open>The economics of the unit tests.\<close>

definition testEconomics :: UnitEconomics where
  "testEconomics =
     \<lparr>costPrice = 800, wbCommission = 15, logistics = 50, storage = 0, spp = 0, tax = 6\<rparr>"



text \<open>Variable costs of 18%, and a minimum margin of exactly the remaining 82%.\<close>

definition boundaryEconomics :: UnitEconomics where
  "boundaryEconomics =
     \<lparr>costPrice = 800, wbCommission = 12, logistics = 50, storage = 0, spp = 0, tax = 6\<rparr>"

definition marginConstraint82 :: "Constraint list" where
  "marginConstraint82 = [\<lparr>ctype = MIN_MARGIN, cvalue = 82, enabled = True\<rparr>]"

text \<open>A minimum margin of 80% on top of 21% variable costs.\<close>

definition marginConstraint80 :: "Constraint list" where
  "marginConstraint80 = [\<lparr>ctype = MIN_MARGIN, cvalue = 80, enabled = True\<rparr>]"

text \<open>A price cap, a disabled margin floor and a margin floor of 90%.\<close>

definition cappedConstraints :: "Constraint list" where
  "cappedConstraints =
     [\<lparr>ctype = MAX_PRICE, cvalue = 1400, enabled = True\<rparr>,
      \<lparr>ctype = MIN_MARGIN, cvalue = 5, enabled = False\<rparr>,
      \<lparr>ctype = MIN_MARGIN, cvalue = 90, enabled = True\<rparr>]"

text \<open>No condition value is a numeric string.\<close>

definition noStringNumbers :: "string \<Rightarrow> jsnum" where
  "noStringNumbers s = NaN"

text \<open>A SKU at rank 4, and the same SKU at rank 2.\<close>

definition rank4Context :: SKUContext where
  "rank4Context =
     \<lparr>sku = \<lparr>sku_id = ''sku-1'', currentPrice = 1200, position = Some 4,
             economics = testEconomics\<rparr>,
      marketData = \<lparr>minPrice = 1000, maxPrice = 2000, medianPrice = 1500,
                    competitorCount = 3, competitors = Some []\<rparr>\<rparr>"

definition rank2Context :: SKUContext where
  "rank2Context = rank4Context\<lparr>sku := (sku rank4Context)\<lparr>position := Some 2\<rparr>\<rparr>"

text \<open>Two conditions on the margin of the current price (8.17% for the SKU above).\<close>

definition marginAbove10 :: Condition where
  "marginAbove10 = Condition ''margin'' GREATER_THAN (CNum 10) [] []"

definition marginAbove1 :: Condition where
  "marginAbove1 = Condition ''margin'' GREATER_THAN (CNum 1) [] []"

text \<open>Three competitors in stock, one of them without a discounted price.\<close>

definition threeCompetitors :: "Competitor list" where
  "threeCompetitors =
     [\<lparr>c_price = 120, priceWithDiscount = 0, inStock = True\<rparr>,
      \<lparr>c_price = 120, priceWithDiscount = 100, inStock = True\<rparr>,
      \<lparr>c_price = 250, priceWithDiscount = 200, inStock = True\<rparr>]"

definition threeCompetitorContext :: SKUContext where
  "threeCompetitorContext =
     \<lparr>sku = \<lparr>sku_id = ''sku-2'', currentPrice = 100, position = None,
             economics = testEconomics\<rparr>,
      marketData = \<lparr>minPrice = 100, maxPrice = 200, medianPrice = 150,
                    competitorCount = 3, competitors = Some threeCompetitors\<rparr>\<rparr>"

text \<open>The same SKU with a single competitor, and with no snapshot at all.\<close>

definition oneCompetitorContext :: SKUContext where
  "oneCompetitorContext =
     threeCompetitorContext\<lparr>marketData := (marketData threeCompetitorContext)
       \<lparr>competitors := Some [\<lparr>c_price = 120, priceWithDiscount = 100, inStock = True\<rparr>]\<rparr>\<rparr>"

definition noSnapshotContext :: SKUContext where
  "noSnapshotContext = threeCompetitorContext\<lparr>marketData := defaultMarketData\<rparr>"

text \<open>A competitive-hold strategy without conditions, actions or stop conditions.\<close>

definition holdStrategy :: Strategy where
  "holdStrategy =
     \<lparr>strategy_id = ''strategy-1'', stype = COMPETITIVE_HOLD, active = True, conditions = [],
      actions = [], constraints = [], stopConditions = [], cooldownMinutes = 360,
      maxChangesPerDay = 3\<rparr>"

text \<open>A shop with one SKU, repriced twice, and two strategies of its owner: \<open>A\<close> with a
  cooldown of 360 minutes and \<open>B\<close> with a cooldown of 0 minutes. Strategy \<open>A\<close> is activated
  for the SKU first, then strategy \<open>B\<close>.\<close>

definition strategyRow :: "string \<Rightarrow> int \<Rightarrow> StrategyRow" where
  "strategyRow sid minutes =
     \<lparr>strategy_id = sid, stype = PRICE_LEADER, active = True, conditions = [],
      actions = [], constraints = [], stopConditions = [], cooldownMinutes = minutes,
      maxChangesPerDay = 3, userId = ''user-1''\<rparr>"

definition emptyShop :: Database where
  "emptyShop =
     \<lparr>strategyTable = [strategyRow ''A'' 360, strategyRow ''B'' 0],
      skuTable = [\<lparr>skuRow_id = ''sku-1'', skuRow_userId = ''user-1''\<rparr>],
      skuStrategyTable = [],
      priceHistoryTable = [\<lparr>ph_skuId = ''sku-1'', ph_time = 5000\<rparr>,
                           \<lparr>ph_skuId = ''sku-1'', ph_time = 1000000\<rparr>,
                           \<lparr>ph_skuId = ''sku-2'', ph_time = 2000000\<rparr>]\<rparr>"

definition shopWithA :: Database where
  "shopWithA = snd (activateForSKU (Some ''user-1'') ''A'' ''sku-1'' emptyShop)"

definition shopWithB :: Database where
  "shopWithB = snd (activateForSKU (Some ''user-1'') ''B'' ''sku-1'' shopWithA)"

text \<open>Two activation requests for the SKU of \<open>shopWithA\<close>, one for strategy \<open>B\<close> and one for
  strategy \<open>A\<close>, served at the same time: both deactivations are written before either
  upsert.\<close>

definition shopBothDeactivated :: Database where
  "shopBothDeactivated =
     deactivateStatement ''sku-1'' (deactivateStatement ''sku-1'' shopWithA)"

definition shopInterleaved :: Database where
  "shopInterleaved =
     snd (upsertStatement ''B'' ''sku-1''
            (snd (upsertStatement ''A'' ''sku-1'' shopBothDeactivated)))"

section \<open>Auxiliary quantities\<close>

definition attainable :: "UnitEconomics \<Rightarrow> Constraint \<Rightarrow> bool" where
  \<comment> \<open>an enabled minimum-margin constraint for which the computed denominator is positive\<close>
  "attainable ec c =
     (enabled c \<and> ctype c = MIN_MARGIN \<longrightarrow> 0 < marginDenominator ec (cvalue c))"

text \<open>The cooldown as the specification words it: the minutes of the active strategy, 360
  when the SKU has no active strategy.\<close>

definition claimedCooldownMinutes :: "Database \<Rightarrow> string \<Rightarrow> int" where
  "claimedCooldownMinutes db skuId =
     (case findActiveStrategy db skuId of
        None \<Rightarrow> DEFAULT_COOLDOWN_MINUTES
      | Some s \<Rightarrow> cooldownMinutes s)"

text \<open>The unique key of an attachment, and the invariant of the attachment table: keys are
  unique and no SKU has two active rows.\<close>

definition keyOf :: "SKUStrategy \<Rightarrow> string \<times> string" where
  "keyOf r = (ss_skuId r, ss_strategyId r)"

definition tableInvariant :: "SKUStrategy list \<Rightarrow> bool" where
  "tableInvariant rows =
     (distinct (map keyOf rows)
      \<and> (\<forall>k. length (filter (\<lambda>r. ss_skuId r = k \<and> ss_active r) rows) \<le> 1))"

section \<open>Properties of the economics engine\<close>

subsection \<open>Rounding to binary64\<close>


lemma round_even_of_int [simp]: "round_even (of_int n) = n"
  unfolding round_even_def Let_def by simp

lemma round_even_numeral [simp]: "round_even (numeral k) = numeral k"
  using round_even_of_int [of "numeral k"] by simp

lemma round_even_0 [simp]: "round_even 0 = 0"
  using round_even_of_int [of 0] by simp


lemma round_even_near:
  assumes "\<bar>y - of_int n\<bar> < 1 / 2"
  shows "round_even y = n"
proof -
  have lo: "of_int n - 1 / 2 < y" and hi: "y < of_int n + 1 / 2" using assms by linarith+
  show ?thesis
  proof (cases "of_int n \<le> y")
    case True
    then have f: "\<lfloor>y\<rfloor> = n" using hi by (intro floor_unique) linarith+
    show ?thesis unfolding round_even_def Let_def f using hi by auto
  next
    case False
    then have f: "\<lfloor>y\<rfloor> = n - 1" using lo by (intro floor_unique) auto
    show ?thesis unfolding round_even_def Let_def f using lo by auto
  qed
qed

lemma round_even_tie:
  assumes "y = of_int f + 1 / 2"
  shows "round_even y = (if even f then f else f + 1)"
proof -
  have fl: "\<lfloor>y\<rfloor> = f" unfolding assms by (intro floor_unique) simp_all
  show ?thesis unfolding round_even_def Let_def fl by (simp add: assms)
qed















text \<open>Evaluation: scaled by \<open>2 ^ s\<close> into the range of 53-bit integers, \<open>x\<close> rounds to the
  nearest integer \<open>n\<close>, or at a tie to the even neighbour.\<close>

lemma scaled_ulp:
  assumes "s \<le> 1074" and "2 ^ 52 \<le> \<bar>x\<bar> * 2 ^ s" and "\<bar>x\<bar> * 2 ^ s < 2 ^ 53"
  shows "x \<noteq> 0 \<and> ulp x = 1 / 2 ^ s"
proof -
  have nz: "x \<noteq> 0" using assms(2) by auto
  have "(2::real) powr (52 - real s) = 2 powr 52 / 2 powr (real s)"
    by (rule powr_diff)
  then have p: "(2::real) powr (of_int (52 - int s)) = 2 ^ 52 / 2 ^ s"
    by (simp add: powr_realpow)
  have "(2::real) powr (53 - real s) = 2 powr 53 / 2 powr (real s)"
    by (rule powr_diff)
  then have p1: "(2::real) powr (of_int (52 - int s) + 1) = 2 ^ 53 / 2 ^ s"
    by (simp add: powr_realpow)
  have "2 powr (of_int (52 - int s)) \<le> \<bar>x\<bar> \<and> \<bar>x\<bar> < 2 powr (of_int (52 - int s) + 1)"
    unfolding p p1 using assms(2,3) by (simp add: field_simps)
  then have "\<lfloor>log 2 \<bar>x\<bar>\<rfloor> = 52 - int s"
    using nz floor_log_eq_powr_iff [of "\<bar>x\<bar>" 2 "52 - int s"] by simp
  then have b: "binade x = 52 - int s" using assms(1) by (simp add: binade_def)
  have "ulp x = 1 / 2 ^ s"
    unfolding ulp_def b by (simp add: powr_minus powr_realpow field_simps)
  then show ?thesis using nz by simp
qed

lemma fl_eval:
  assumes "s \<le> 1074" and "2 ^ 52 \<le> \<bar>x\<bar> * 2 ^ s" and "\<bar>x\<bar> * 2 ^ s < 2 ^ 53"
    and "\<bar>x * 2 ^ s - of_int n\<bar> < 1 / 2"
  shows "fl x = of_int n / 2 ^ s"
proof -
  have u: "x \<noteq> 0 \<and> ulp x = 1 / 2 ^ s" using assms(1-3) by (rule scaled_ulp)
  have "round_even (x / ulp x) = n"
    using assms(4) by (intro round_even_near) (simp add: u)
  then show ?thesis using u by (simp add: fl_def)
qed

lemma fl_eval_tie:
  assumes "s \<le> 1074" and "2 ^ 52 \<le> \<bar>x\<bar> * 2 ^ s" and "\<bar>x\<bar> * 2 ^ s < 2 ^ 53"
    and "x * 2 ^ s = of_int f + 1 / 2"
  shows "fl x = of_int (if even f then f else f + 1) / 2 ^ s"
proof -
  have u: "x \<noteq> 0 \<and> ulp x = 1 / 2 ^ s" using assms(1-3) by (rule scaled_ulp)
  have "round_even (x / ulp x) = (if even f then f else f + 1)"
    using assms(4) by (intro round_even_tie) (simp add: u)
  then show ?thesis using u by (simp add: fl_def)
qed

lemma fl_0 [simp]: "fl 0 = 0"
  by (simp add: fl_def)

lemma fl_1 [simp]: "fl 1 = 1"
  using fl_eval [of 52 1 "2 ^ 52"] by simp


subsection \<open>Monotone steps\<close>







subsection \<open>Values at concrete inputs\<close>

lemma testEconomics_breakeven:
  "calculateBreakeven testEconomics = Inr 1076"
proof -
  have f1: "fl (15) = 15"
    using fl_eval [of 49 "15" "8444249301319680"] by simp
  have f2: "fl (21) = 21"
    using fl_eval [of 48 "21" "5910974510923776"] by simp
  have f3: "fl (21 / 100) = 7566047373982433 / 36028797018963968"
    using fl_eval [of 55 "21 / 100" "7566047373982433"] by simp
  have f4: "fl (850) = 850"
    using fl_eval [of 43 "850" "7476679068876800"] by simp
  have f5: "fl (28462749644981535 / 36028797018963968) = 889460926405673 / 1125899906842624"
    using fl_eval [of 53 "28462749644981535 / 36028797018963968" "7115687411245384"] by simp
  have f6: "fl (957014920816230400 / 889460926405673) = 4732075360048607 / 4398046511104"
    using fl_eval [of 42 "957014920816230400 / 889460926405673" "4732075360048607"] by simp
  show ?thesis
    by (simp add: calculateBreakeven_def variableCostRate_def fixedCosts_def Math_ceil_def testEconomics_def
        f1 f2 f3 f4 f5 f6)
qed





lemma marginDenominator_test_80:
  "marginDenominator testEconomics 80 = - (45035996273705 / 4503599627370496)"
proof -
  have f1: "fl (15) = 15"
    using fl_eval [of 49 "15" "8444249301319680"] by simp
  have f2: "fl (21) = 21"
    using fl_eval [of 48 "21" "5910974510923776"] by simp
  have f3: "fl (21 / 100) = 7566047373982433 / 36028797018963968"
    using fl_eval [of 55 "21 / 100" "7566047373982433"] by simp
  have f4: "fl (28462749644981535 / 36028797018963968) = 889460926405673 / 1125899906842624"
    using fl_eval [of 53 "28462749644981535 / 36028797018963968" "7115687411245384"] by simp
  have f5: "fl (4 / 5) = 3602879701896397 / 4503599627370496"
    using fl_eval [of 53 "4 / 5" "7205759403792794"] by simp
  have f6: "fl (- (45035996273705 / 4503599627370496)) = - (45035996273705 / 4503599627370496)"
    using fl_eval [of 59 "- (45035996273705 / 4503599627370496)" "- 5764607523034240"] by simp
  show ?thesis
    by (simp add: marginDenominator_def variableCostRate_def testEconomics_def
        f1 f2 f3 f4 f5 f6)
qed

lemma marginDenominator_test_90:
  "marginDenominator testEconomics 90 = - (990791918021509 / 9007199254740992)"
proof -
  have f1: "fl (15) = 15"
    using fl_eval [of 49 "15" "8444249301319680"] by simp
  have f2: "fl (21) = 21"
    using fl_eval [of 48 "21" "5910974510923776"] by simp
  have f3: "fl (21 / 100) = 7566047373982433 / 36028797018963968"
    using fl_eval [of 55 "21 / 100" "7566047373982433"] by simp
  have f4: "fl (28462749644981535 / 36028797018963968) = 889460926405673 / 1125899906842624"
    using fl_eval [of 53 "28462749644981535 / 36028797018963968" "7115687411245384"] by simp
  have f5: "fl (9 / 10) = 8106479329266893 / 9007199254740992"
    using fl_eval [of 53 "9 / 10" "8106479329266893"] by simp
  have f6: "fl (- (990791918021509 / 9007199254740992)) = - (990791918021509 / 9007199254740992)"
    using fl_eval [of 56 "- (990791918021509 / 9007199254740992)" "- 7926335344172072"] by simp
  show ?thesis
    by (simp add: marginDenominator_def variableCostRate_def testEconomics_def
        f1 f2 f3 f4 f5 f6)
qed

lemma boundaryEconomics_values:
  "calculateBreakeven boundaryEconomics = Inr 1037
   \<and> marginDenominator boundaryEconomics 82 = 1 / 2 ^ 53"
proof -
  have f1: "fl (12) = 12"
    using fl_eval [of 49 "12" "6755399441055744"] by simp
  have f2: "fl (18) = 18"
    using fl_eval [of 48 "18" "5066549580791808"] by simp
  have f3: "fl (9 / 50) = 3242591731706757 / 18014398509481984"
    using fl_eval [of 55 "9 / 50" "6485183463413514"] by simp
  have f4: "fl (850) = 850"
    using fl_eval [of 43 "850" "7476679068876800"] by simp
  have f5: "fl (14771806777775227 / 18014398509481984) = 3692951694443807 / 4503599627370496"
    using fl_eval_tie [of 53 "14771806777775227 / 18014398509481984" "7385903388887613"] by simp
  have f6: "fl (3828059683264921600 / 3692951694443807) = 2279475325877073 / 2199023255552"
    using fl_eval [of 42 "3828059683264921600 / 3692951694443807" "4558950651754146"] by simp
  have f7: "fl (41 / 50) = 7385903388887613 / 9007199254740992"
    using fl_eval [of 53 "41 / 50" "7385903388887613"] by simp
  have f8: "fl (1 / 9007199254740992) = 1 / 9007199254740992"
    using fl_eval [of 105 "1 / 9007199254740992" "4503599627370496"] by simp
  show ?thesis
    by (simp add: calculateBreakeven_def variableCostRate_def fixedCosts_def Math_ceil_def marginDenominator_def boundaryEconomics_def
        f1 f2 f3 f4 f5 f6 f7 f8)
qed

subsection \<open>Profit, margin and breakeven\<close>

text \<open>
  C2. For the economics of the unit tests (cost 800, commission 15%, logistics 50,
  storage 0, seller discount 0%, tax 6%) the profit at price 1200 is exactly 98, the margin
  at price 1200 is 8.17 (the binary64 number nearest to it) and the breakeven is 1076.
\<close>

theorem fixed_economics_values:
  "calculateProfit 1200 testEconomics = 98
   \<and> calculateMargin 1200 testEconomics = Fin (fl (817 / 100))
   \<and> calculateBreakeven testEconomics = Inr 1076"
proof -
  have f1: "fl (1200) = 1200"
    using fl_eval [of 42 "1200" "5277655813324800"] by simp
  have f2: "fl (3 / 20) = 5404319552844595 / 36028797018963968"
    using fl_eval [of 55 "3 / 20" "5404319552844595"] by simp
  have f3: "fl (405323966463344625 / 2251799813685248) = 180"
    using fl_eval [of 45 "405323966463344625 / 2251799813685248" "6333186975989760"] by simp
  have f4: "fl (3 / 50) = 1080863910568919 / 18014398509481984"
    using fl_eval [of 57 "3 / 50" "8646911284551352"] by simp
  have f5: "fl (81064793292668925 / 1125899906842624) = 72"
    using fl_eval [of 46 "81064793292668925 / 1125899906842624" "5066549580791808"] by simp
  have f6: "fl (400) = 400"
    using fl_eval [of 44 "400" "7036874417766400"] by simp
  have f7: "fl (220) = 220"
    using fl_eval [of 45 "220" "7740561859543040"] by simp
  have f8: "fl (170) = 170"
    using fl_eval [of 45 "170" "5981343255101440"] by simp
  have f9: "fl (98) = 98"
    using fl_eval [of 46 "98" "6896136929411072"] by simp
  have f10: "fl (9800) = 9800"
    using fl_eval [of 39 "9800" "5387606976102400"] by simp
  have f11: "fl (49 / 600) = 735587939137181 / 9007199254740992"
    using fl_eval [of 56 "49 / 600" "5884703513097448"] by simp
  have f12: "fl (18389698478429525 / 2251799813685248) = 4597424619607381 / 562949953421312"
    using fl_eval [of 49 "18389698478429525 / 2251799813685248" "4597424619607381"] by simp
  have f13: "fl (114935615490184525 / 140737488355328) = 7183475968136533 / 8796093022208"
    using fl_eval [of 43 "114935615490184525 / 140737488355328" "7183475968136533"] by simp
  have f14: "fl (817 / 100) = 4599301119452119 / 562949953421312"
    using fl_eval [of 49 "817 / 100" "4599301119452119"] by simp
  have f15: "fl (15) = 15"
    using fl_eval [of 49 "15" "8444249301319680"] by simp
  have f16: "fl (21) = 21"
    using fl_eval [of 48 "21" "5910974510923776"] by simp
  have f17: "fl (21 / 100) = 7566047373982433 / 36028797018963968"
    using fl_eval [of 55 "21 / 100" "7566047373982433"] by simp
  have f18: "fl (850) = 850"
    using fl_eval [of 43 "850" "7476679068876800"] by simp
  have f19: "fl (28462749644981535 / 36028797018963968) = 889460926405673 / 1125899906842624"
    using fl_eval [of 53 "28462749644981535 / 36028797018963968" "7115687411245384"] by simp
  have f20: "fl (957014920816230400 / 889460926405673) = 4732075360048607 / 4398046511104"
    using fl_eval [of 42 "957014920816230400 / 889460926405673" "4732075360048607"] by simp
  show ?thesis
    by (simp add: calculateProfit_def rawProfit_def round2_def Math_round_def Let_def calculateMargin_def js_fdiv_def calculateBreakeven_def variableCostRate_def fixedCosts_def Math_ceil_def testEconomics_def
        f1 f2 f3 f4 f5 f6 f7 f8 f9 f10 f11 f12 f13 f14 f15 f16 f17 f18 f19 f20)
qed




subsection \<open>Validation\<close>

lemma checkConstraint_not_breakeven:
  "checkConstraint c p pr mg b = Some err \<Longrightarrow> etype err \<noteq> below_breakeven"
  by (auto simp: checkConstraint_def split: ConstraintType.splits if_splits)

lemma constraintErrors_no_breakeven:
  "\<forall>x\<in>set errs. etype x \<noteq> below_breakeven
   \<Longrightarrow> \<forall>x\<in>set (constraintErrors cs p pr mg b errs). etype x \<noteq> below_breakeven"
proof (induction cs arbitrary: errs)
  case Nil
  then show ?case by simp
next
  case (Cons c cs)
  show ?case
  proof (cases "enabled c")
    case False
    then show ?thesis using Cons by simp
  next
    case True
    show ?thesis
    proof (cases "checkConstraint c p pr mg b")
      case None
      then show ?thesis using True Cons by simp
    next
      case (Some err)
      then have "\<forall>x\<in>set (errs @ [err]). etype x \<noteq> below_breakeven"
        using Cons.prems checkConstraint_not_breakeven by auto
      then have "\<forall>x\<in>set (constraintErrors cs p pr mg b (errs @ [err])).
                   etype x \<noteq> below_breakeven"
        by (rule Cons.IH)
      then show ?thesis using True Some by simp
    qed
  qed
qed

lemma constraintErrors_keeps:
  "errs \<noteq> [] \<Longrightarrow> constraintErrors cs p pr mg b errs \<noteq> []"
  by (induction cs arbitrary: errs) (auto split: option.splits)

lemma constraintErrors_violated:
  assumes "c \<in> set cs" and "enabled c" and "checkConstraint c p pr mg b \<noteq> None"
  shows "constraintErrors cs p pr mg b errs \<noteq> []"
  using assms(1)
proof (induction cs arbitrary: errs)
  case Nil
  then show ?case by simp
next
  case (Cons d ds)
  show ?case
  proof (cases "d = c")
    case True
    then show ?thesis using assms(2,3) by (auto simp: constraintErrors_keeps)
  next
    case False
    then have "\<And>errs. constraintErrors ds p pr mg b errs \<noteq> []" using Cons by simp
    then show ?thesis by (simp split: option.splits)
  qed
qed

lemma addBreakevenError_keeps: "errs \<noteq> [] \<Longrightarrow> addBreakevenError p b errs \<noteq> []"
  by (simp add: addBreakevenError_def Let_def)

lemma find_None_iff_no_breakeven:
  "(find (\<lambda>e. etype e = below_breakeven) errs = None)
   = (\<forall>x\<in>set errs. etype x \<noteq> below_breakeven)"
  by (auto simp: find_None_iff)

lemma validationErrors_below:
  assumes "p < b"
  shows "\<exists>errs. validationErrors p ec cs b
            = errs @ [\<lparr>etype = below_breakeven, critical = True, e_suggestedPrice = Some b\<rparr>]
          \<and> (\<forall>x\<in>set errs. etype x \<noteq> below_breakeven)"
proof -
  let ?errs = "constraintErrors cs p (calculateProfit p ec) (calculateMargin p ec) b []"
  have nb: "\<forall>x\<in>set ?errs. etype x \<noteq> below_breakeven"
    by (rule constraintErrors_no_breakeven) simp
  then have "validationErrors p ec cs b
             = ?errs @ [\<lparr>etype = below_breakeven, critical = True, e_suggestedPrice = Some b\<rparr>]"
    using assms by (simp add: validationErrors_def addBreakevenError_def find_None_iff_no_breakeven)
  then show ?thesis using nb by blast
qed

lemma minAllowedLoop_total:
  "\<forall>c\<in>set cs. attainable ec c \<Longrightarrow> \<exists>m. minAllowedLoop ec cs m0 = Inr m"
proof (induction cs arbitrary: m0)
  case Nil
  then show ?case by simp
next
  case (Cons c cs)
  then have rest: "\<And>m. \<exists>m'. minAllowedLoop ec cs m = Inr m'" by simp
  show ?case
  proof (cases "enabled c \<and> ctype c = MIN_MARGIN")
    case True
    then have "0 < marginDenominator ec (cvalue c)"
      using Cons.prems by (simp add: attainable_def)
    then have "calculatePriceForMargin ec (cvalue c)
               = Inr (fl (fixedCosts ec / marginDenominator ec (cvalue c)))"
      by (simp add: calculatePriceForMargin_def)
    then show ?thesis using True rest by simp
  next
    case False
    then show ?thesis using rest by (cases "ctype c") auto
  qed
qed

lemma minAllowedLoop_throws:
  assumes "c \<in> set cs" "enabled c" "ctype c = MIN_MARGIN"
    "marginDenominator ec (cvalue c) \<le> 0"
  shows "minAllowedLoop ec cs m0 = Inl CannotAchieveTargetMargin"
  using assms(1)
proof (induction cs arbitrary: m0)
  case Nil
  then show ?case by simp
next
  case (Cons d ds)
  have thr: "calculatePriceForMargin ec (cvalue c) = Inl CannotAchieveTargetMargin"
    using assms(4) by (simp add: calculatePriceForMargin_def)
  show ?case
  proof (cases "d = c")
    case True
    then show ?thesis using assms(2,3) thr by simp
  next
    case False
    then have IH: "\<And>m. minAllowedLoop ec ds m = Inl CannotAchieveTargetMargin"
      using Cons by simp
    show ?thesis
    proof (cases "enabled d")
      case False
      then show ?thesis using IH by simp
    next
      case True
      then show ?thesis using IH
        by (cases "ctype d")
           (auto simp: calculatePriceForMargin_def Let_def split: sum.splits)
    qed
  qed
qed

text \<open>When the breakeven exists and no enabled minimum-margin constraint makes
  \<open>calculatePriceForMargin\<close> raise, \<open>validatePrice\<close> returns, with the errors of the two
  checks.\<close>

lemma validatePrice_returns:
  assumes "calculateBreakeven ec = Inr b" and "\<forall>c\<in>set cs. attainable ec c"
  shows "\<exists>r. validatePrice p ec cs = Inr r \<and> breakeven r = b
            \<and> errors r = validationErrors p ec cs b
            \<and> valid r = (validationErrors p ec cs b = [])"
proof -
  obtain m where "minAllowedLoop ec cs (Fin b) = Inr m"
    using assms(2) minAllowedLoop_total by blast
  then have "calculateMinAllowedPrice ec cs = Inr (js_apply Math_ceil m)"
    using assms(1) by (simp add: calculateMinAllowedPrice_def)
  then show ?thesis
    using assms(1) by (simp add: validatePrice_def Let_def)
qed

text \<open>
  C1, as stated, fails: below breakeven, with an enabled minimum margin that the cost
  structure cannot reach, \<open>validatePrice\<close> raises while computing the minimum allowed price
  and returns no result at all.
\<close>

theorem validatePrice_no_result_counterexample:
  "calculateBreakeven testEconomics = Inr 1076 \<and> (1000 :: real) < 1076
   \<and> validatePrice 1000 testEconomics marginConstraint80 = Inl CannotAchieveTargetMargin"
proof -
  have e: "validationErrors 1000 testEconomics marginConstraint80 1076 \<noteq> []"
    using validationErrors_below [of 1000 1076 testEconomics marginConstraint80] by auto
  have "calculatePriceForMargin testEconomics 80 = Inl CannotAchieveTargetMargin"
    by (simp add: calculatePriceForMargin_def marginDenominator_test_80)
  then have m: "calculateMinAllowedPrice testEconomics marginConstraint80
                = Inl CannotAchieveTargetMargin"
    by (simp add: calculateMinAllowedPrice_def testEconomics_breakeven marginConstraint80_def)
  show ?thesis
    using e m by (simp add: testEconomics_breakeven validatePrice_def Let_def)
qed

text \<open>
  C1, amended. When \<open>calculateBreakeven\<close> returns and every enabled minimum-margin
  constraint has a positive denominator \<open>1 - variableCostRate - value / 100\<close>, as the engine
  computes it in binary64 arithmetic, \<open>validatePrice\<close> returns a result for every price and
  every such constraint list, the empty list included, and the result carries that
  breakeven; whenever the price is strictly below the breakeven, the result is invalid and
  its errors hold exactly one \<open>below_breakeven\<close> entry, which is critical.
\<close>

theorem validatePrice_breakeven_floor:
  assumes "calculateBreakeven ec = Inr b"
    and "\<forall>c\<in>set cs. enabled c \<and> ctype c = MIN_MARGIN
            \<longrightarrow> 0 < marginDenominator ec (cvalue c)"
  shows "\<exists>r. validatePrice p ec cs = Inr r \<and> breakeven r = b
            \<and> (p < b \<longrightarrow> \<not> valid r
                  \<and> length (filter (\<lambda>x. etype x = below_breakeven) (errors r)) = 1
                  \<and> (\<forall>x\<in>set (errors r). etype x = below_breakeven \<longrightarrow> critical x))"
proof -
  have "\<forall>c\<in>set cs. attainable ec c" using assms(2) by (simp add: attainable_def)
  then obtain r where r: "validatePrice p ec cs = Inr r" "breakeven r = b"
    "errors r = validationErrors p ec cs b" "valid r = (validationErrors p ec cs b = [])"
    using validatePrice_returns [OF assms(1)] by blast
  have "p < b \<longrightarrow> \<not> valid r
          \<and> length (filter (\<lambda>x. etype x = below_breakeven) (errors r)) = 1
          \<and> (\<forall>x\<in>set (errors r). etype x = below_breakeven \<longrightarrow> critical x)"
  proof
    assume "p < b"
    then obtain errs where errs:
      "validationErrors p ec cs b
         = errs @ [\<lparr>etype = below_breakeven, critical = True, e_suggestedPrice = Some b\<rparr>]"
      "\<forall>x\<in>set errs. etype x \<noteq> below_breakeven"
      using validationErrors_below by blast
    have flt: "filter (\<lambda>x. etype x = below_breakeven) errs = []"
      using errs(2) by (simp add: filter_empty_conv)
    show "\<not> valid r
          \<and> length (filter (\<lambda>x. etype x = below_breakeven) (errors r)) = 1
          \<and> (\<forall>x\<in>set (errors r). etype x = below_breakeven \<longrightarrow> critical x)"
      using r(3,4) errs flt by auto
  qed
  then show ?thesis using r(1,2) by blast
qed

theorem validatePrice_breakeven_floor_witness:
  "\<exists>r. validatePrice 976 testEconomics [] = Inr r \<and> breakeven r = 1076 \<and> \<not> valid r
       \<and> length (filter (\<lambda>x. etype x = below_breakeven) (errors r)) = 1
       \<and> (\<forall>x\<in>set (errors r). etype x = below_breakeven \<longrightarrow> critical x)"
  using validatePrice_breakeven_floor [OF testEconomics_breakeven, of "[]" 976] by simp

text \<open>
  C10, as stated, fails at the boundary. With commission 12% and tax 6% a minimum margin of
  82% satisfies \<open>value / 100 \<ge> 1 - (wbCommission + spp + tax) / 100\<close>, and the price 1000 is
  below the breakeven 1037, so there is a validation error; but in binary64 arithmetic
  \<open>1 - 0.18\<close> is 0.8200000000000001, the denominator is \<open>2 ^ -53\<close>, no exception is raised
  and \<open>validatePrice\<close> returns a result.
\<close>

theorem margin_boundary_counterexample:
  "calculateBreakeven boundaryEconomics = Inr 1037
   \<and> cvalue (hd marginConstraint82) / 100
       \<ge> 1 - (wbCommission boundaryEconomics + spp boundaryEconomics
                + tax boundaryEconomics) / 100
   \<and> enabled (hd marginConstraint82) \<and> ctype (hd marginConstraint82) = MIN_MARGIN
   \<and> validationErrors 1000 boundaryEconomics marginConstraint82 1037 \<noteq> []
   \<and> \<not> isl (validatePrice 1000 boundaryEconomics marginConstraint82)"
proof -
  have b: "calculateBreakeven boundaryEconomics = Inr 1037"
    using boundaryEconomics_values by simp
  have "\<forall>c\<in>set marginConstraint82. attainable boundaryEconomics c"
    using boundaryEconomics_values by (simp add: attainable_def marginConstraint82_def)
  then have "\<exists>r. validatePrice 1000 boundaryEconomics marginConstraint82 = Inr r"
    using validatePrice_returns [OF b] by blast
  then have r: "\<not> isl (validatePrice 1000 boundaryEconomics marginConstraint82)"
    by auto
  have e: "validationErrors 1000 boundaryEconomics marginConstraint82 1037 \<noteq> []"
    using validationErrors_below [of 1000 1037 boundaryEconomics marginConstraint82] by auto
  show ?thesis
    using b r e by (simp add: marginConstraint82_def boundaryEconomics_def)
qed

text \<open>
  C10, amended. \<open>validatePrice\<close> is not total. Whenever \<open>calculateBreakeven\<close> returns, the
  checks produce at least one validation error and the constraint list holds an enabled
  minimum-margin constraint whose denominator \<open>1 - variableCostRate - value / 100\<close>, as the
  engine computes it in binary64 arithmetic, is not positive, the call raises 'Cannot
  achieve target margin with current costs' instead of returning a result.
\<close>

theorem validatePrice_margin_unattainable:
  assumes "calculateBreakeven ec = Inr b"
    and "c \<in> set cs" and "enabled c" and "ctype c = MIN_MARGIN"
    and "marginDenominator ec (cvalue c) \<le> 0"
    and "validationErrors p ec cs b \<noteq> []"
  shows "validatePrice p ec cs = Inl CannotAchieveTargetMargin"
proof -
  have "minAllowedLoop ec cs (Fin b) = Inl CannotAchieveTargetMargin"
    using assms(2-5) by (intro minAllowedLoop_throws [of c]) simp_all
  then have "calculateMinAllowedPrice ec cs = Inl CannotAchieveTargetMargin"
    using assms(1) by (simp add: calculateMinAllowedPrice_def)
  then show ?thesis
    using assms(1,6) by (simp add: validatePrice_def Let_def)
qed

theorem validatePrice_margin_unattainable_witness:
  "validatePrice 1500 testEconomics cappedConstraints = Inl CannotAchieveTargetMargin"
proof -
  have c: "\<lparr>ctype = MIN_MARGIN, cvalue = 90, enabled = True\<rparr> \<in> set cappedConstraints"
    by (simp add: cappedConstraints_def)
  have d: "marginDenominator testEconomics
             (cvalue \<lparr>ctype = MIN_MARGIN, cvalue = 90, enabled = True\<rparr>) \<le> 0"
    by (simp add: marginDenominator_test_90)
  have cap: "\<lparr>ctype = MAX_PRICE, cvalue = 1400, enabled = True\<rparr> \<in> set cappedConstraints"
    by (simp add: cappedConstraints_def)
  have "constraintErrors cappedConstraints 1500 (calculateProfit 1500 testEconomics)
          (calculateMargin 1500 testEconomics) 1076 [] \<noteq> []"
    using cap by (rule constraintErrors_violated) (simp_all add: checkConstraint_def)
  then have e: "validationErrors 1500 testEconomics cappedConstraints 1076 \<noteq> []"
    unfolding validationErrors_def by (rule addBreakevenError_keeps)
  show ?thesis
    using validatePrice_margin_unattainable [OF testEconomics_breakeven c _ _ d e] by simp
qed

section \<open>Properties of the condition evaluator\<close>

lemma allPass_iff: "allPass tn ctx cs = (\<forall>c\<in>set cs. evaluate tn ctx c)"
  by (induction cs) simp_all

lemma anyPass_iff: "anyPass tn ctx cs = (\<exists>c\<in>set cs. evaluate tn ctx c)"
  by (induction cs) simp_all

lemma evaluate_iff:
  "evaluate tn ctx (Condition m op ex ands ors)
   = ((\<exists>a. getMetricValue m ctx = Number a \<and> evaluateOperator tn a op ex)
      \<and> (\<forall>c\<in>set ands. evaluate tn ctx c)
      \<and> (ors = [] \<or> (\<exists>c\<in>set ors. evaluate tn ctx c)))"
  by (cases "getMetricValue m ctx") (auto simp: allPass_iff anyPass_iff Let_def)

lemma getMetricValue_unknown:
  "m \<notin> {''position'', ''my_price'', ''current_price'', ''competitor_min_price'',
         ''competitor_max_price'', ''competitor_median_price'', ''competitor_count'',
         ''margin'', ''profit''}
   \<Longrightarrow> getMetricValue m ctx = Undefined"
  by (simp add: getMetricValue_def)

text \<open>
  C6. A condition evaluates to true exactly when its metric is known and not null, its own
  comparison holds, every condition of its \<open>and\<close> list holds and, if its \<open>or\<close> list is not
  empty, at least one condition of that list holds. So one false \<open>and\<close> child makes it
  false whatever the comparison says, a failing comparison makes it false whatever the \<open>or\<close>
  children say, and a condition on an unknown metric name is false.
\<close>

theorem condition_evaluator:
  "(evaluate tn ctx (Condition m op ex ands ors)
      = ((\<exists>a. getMetricValue m ctx = Number a \<and> evaluateOperator tn a op ex)
         \<and> (\<forall>c\<in>set ands. evaluate tn ctx c)
         \<and> (ors \<noteq> [] \<longrightarrow> (\<exists>c\<in>set ors. evaluate tn ctx c))))
   \<and> ((\<exists>c\<in>set ands. \<not> evaluate tn ctx c)
        \<longrightarrow> \<not> evaluate tn ctx (Condition m op ex ands ors))
   \<and> ((\<forall>a. getMetricValue m ctx = Number a \<longrightarrow> \<not> evaluateOperator tn a op ex)
        \<longrightarrow> \<not> evaluate tn ctx (Condition m op ex ands ors))
   \<and> (m \<notin> {''position'', ''my_price'', ''current_price'', ''competitor_min_price'',
             ''competitor_max_price'', ''competitor_median_price'', ''competitor_count'',
             ''margin'', ''profit''}
        \<longrightarrow> \<not> evaluate tn ctx (Condition m op ex ands ors))"
proof (intro conjI impI)
  show "evaluate tn ctx (Condition m op ex ands ors)
      = ((\<exists>a. getMetricValue m ctx = Number a \<and> evaluateOperator tn a op ex)
         \<and> (\<forall>c\<in>set ands. evaluate tn ctx c)
         \<and> (ors \<noteq> [] \<longrightarrow> (\<exists>c\<in>set ors. evaluate tn ctx c)))"
    unfolding evaluate_iff by blast
next
  assume "\<exists>c\<in>set ands. \<not> evaluate tn ctx c"
  then show "\<not> evaluate tn ctx (Condition m op ex ands ors)"
    unfolding evaluate_iff by blast
next
  assume "\<forall>a. getMetricValue m ctx = Number a \<longrightarrow> \<not> evaluateOperator tn a op ex"
  then show "\<not> evaluate tn ctx (Condition m op ex ands ors)"
    unfolding evaluate_iff by blast
next
  assume "m \<notin> {''position'', ''my_price'', ''current_price'', ''competitor_min_price'',
             ''competitor_max_price'', ''competitor_median_price'', ''competitor_count'',
             ''margin'', ''profit''}"
  then have "getMetricValue m ctx = Undefined" by (rule getMetricValue_unknown)
  then show "\<not> evaluate tn ctx (Condition m op ex ands ors)"
    unfolding evaluate_iff by simp
qed

lemma position_rank4: "getMetricValue ''position'' rank4Context = Number (Fin 4)"
  by (simp add: getMetricValue_def rank4Context_def)

lemma margin_rank4: "getMetricValue ''margin'' rank4Context = Number (Fin (49 / 6))"
  by (simp add: getMetricValue_def rank4Context_def ce_calculateMargin_def
      ce_calculateProfit_def js_div_def testEconomics_def)

lemma marginAbove10_fails: "\<not> evaluate noStringNumbers rank4Context marginAbove10"
  by (simp add: marginAbove10_def margin_rank4 evaluateOperator_def)

lemma marginAbove1_holds: "evaluate noStringNumbers rank4Context marginAbove1"
  by (simp add: marginAbove1_def margin_rank4 evaluateOperator_def)

theorem condition_evaluator_witness:
  "evaluateOperator noStringNumbers (Fin 4) LESS_THAN (CNum 5)
   \<and> \<not> evaluate noStringNumbers rank4Context
          (Condition ''position'' LESS_THAN (CNum 5) [marginAbove1, marginAbove10] [])
   \<and> evaluate noStringNumbers rank4Context marginAbove1
   \<and> \<not> evaluate noStringNumbers rank4Context
          (Condition ''position'' LESS_THAN (CNum 3) [] [marginAbove1])
   \<and> \<not> evaluate noStringNumbers rank4Context
          (Condition ''sales_velocity'' NOT_EQUALS (CNum 0) [] [marginAbove1])"
proof -
  have a: "\<exists>c\<in>set [marginAbove1, marginAbove10]. \<not> evaluate noStringNumbers rank4Context c"
    using marginAbove10_fails by simp
  have b: "\<forall>a. getMetricValue ''position'' rank4Context = Number a
               \<longrightarrow> \<not> evaluateOperator noStringNumbers a LESS_THAN (CNum 3)"
    by (simp add: position_rank4 evaluateOperator_def)
  have c: "''sales_velocity'' \<notin> {''position'', ''my_price'', ''current_price'',
             ''competitor_min_price'', ''competitor_max_price'', ''competitor_median_price'',
             ''competitor_count'', ''margin'', ''profit''}"
    by simp
  have base: "evaluateOperator noStringNumbers (Fin 4) LESS_THAN (CNum 5)"
    by (simp add: evaluateOperator_def)
  show ?thesis
    using base marginAbove1_holds
      condition_evaluator [of noStringNumbers rank4Context "''position''" LESS_THAN "CNum 5"
        "[marginAbove1, marginAbove10]" "[]", THEN conjunct2, THEN conjunct1, THEN mp, OF a]
      condition_evaluator [of noStringNumbers rank4Context "''position''" LESS_THAN "CNum 3"
        "[]" "[marginAbove1]", THEN conjunct2, THEN conjunct2, THEN conjunct1, THEN mp, OF b]
      condition_evaluator [of noStringNumbers rank4Context "''sales_velocity''" NOT_EQUALS
        "CNum 0" "[]" "[marginAbove1]", THEN conjunct2, THEN conjunct2, THEN conjunct2,
        THEN mp, OF c]
    by blast
qed

section \<open>Properties of the built-in strategies\<close>

text \<open>
  C9. The price leader keeps the current price when the SKU has a market position and it is
  at most 3. Otherwise (position above 3 or unknown) it proposes the larger of the market
  minimum times 0.98 and the current price less 10% of itself: never below the market
  minimum cut by 2%, and never more than 10% of the current price below the current price.
\<close>

theorem price_leader_proposal:
  "((\<exists>p. position (sku ctx) = Some p \<and> p \<le> 3)
      \<longrightarrow> price (PriceLeader_execute ctx) = Fin (currentPrice (sku ctx)))
   \<and> (\<not> (\<exists>p. position (sku ctx) = Some p \<and> p \<le> 3)
      \<longrightarrow> price (PriceLeader_execute ctx)
            = Fin (max (minPrice (marketData ctx) * (98 / 100))
                       (currentPrice (sku ctx) - (10 / 100) * currentPrice (sku ctx)))
          \<and> (\<exists>x. price (PriceLeader_execute ctx) = Fin x
                 \<and> minPrice (marketData ctx) - (2 / 100) * minPrice (marketData ctx) \<le> x
                 \<and> currentPrice (sku ctx) - x \<le> (10 / 100) * currentPrice (sku ctx)))"
proof (intro conjI impI)
  assume "\<exists>p. position (sku ctx) = Some p \<and> p \<le> 3"
  then show "price (PriceLeader_execute ctx) = Fin (currentPrice (sku ctx))"
    by (auto simp: PriceLeader_execute_def)
next
  assume far: "\<not> (\<exists>p. position (sku ctx) = Some p \<and> p \<le> 3)"
  then have branch: "(position (sku ctx) \<noteq> None \<and> the (position (sku ctx)) \<le> 3) = False"
    by auto
  show eq: "price (PriceLeader_execute ctx)
            = Fin (max (minPrice (marketData ctx) * (98 / 100))
                       (currentPrice (sku ctx) - (10 / 100) * currentPrice (sku ctx)))"
    unfolding PriceLeader_execute_def Let_def branch by simp
  show "\<exists>x. price (PriceLeader_execute ctx) = Fin x
          \<and> minPrice (marketData ctx) - (2 / 100) * minPrice (marketData ctx) \<le> x
          \<and> currentPrice (sku ctx) - x \<le> (10 / 100) * currentPrice (sku ctx)"
    unfolding eq by (intro exI conjI, rule refl) (simp_all add: max_def)
qed

theorem price_leader_proposal_witness:
  "price (PriceLeader_execute rank2Context) = Fin 1200
   \<and> price (PriceLeader_execute rank4Context) = Fin 1080"
proof -
  have near: "\<exists>p. position (sku rank2Context) = Some p \<and> p \<le> 3"
    by (simp add: rank2Context_def rank4Context_def)
  have far: "\<not> (\<exists>p. position (sku rank4Context) = Some p \<and> p \<le> 3)"
    by (simp add: rank4Context_def)
  show ?thesis
    using price_leader_proposal [of rank2Context, THEN conjunct1, THEN mp, OF near]
      price_leader_proposal [of rank4Context, THEN conjunct2, THEN mp, OF far]
    by (simp add: rank2Context_def rank4Context_def)
qed










text \<open>With exactly one gathered price the lowest fifth, rounded up, is that price: nothing
  is left, the median of the empty array is NaN and so is the proposed price.\<close>

lemma ceiling_one_fifth: "\<lceil>1 / 5 :: real\<rceil> = 1"
  by (rule ceiling_unique) simp_all

lemma competitive_hold_single_price:
  "price (CompetitiveHold_execute oneCompetitorContext) = NaN"
  by (simp add: oneCompetitorContext_def threeCompetitorContext_def CompetitiveHold_execute_def
      getCompetitorPrices_def removeLowest_def median_def ceiling_one_fifth)

text \<open>The class on generated prices does not look at the competitors: from the default
  snapshot all ten generated prices are 0, and it proposes the price 0 with confidence 0.8
  whatever the draws.\<close>

lemma competitive_hold_generated_no_snapshot:
  "CompetitiveHoldGenerated_execute rnd noSnapshotContext
   = \<lparr>price = Fin 0, reason = ReasonCompetitorMedian, confidence = Some (8 / 10)\<rparr>"
  by (simp add: CompetitiveHoldGenerated_execute_def generateTopPrices_def noSnapshotContext_def
      defaultMarketData_def removeLowest_def median_def upt_rec)

section \<open>Properties of the strategy engine\<close>

text \<open>The random draws reach the result only through the built-in competitive hold.\<close>

lemma evaluateStrategy_random_only_competitive_hold:
  "stype s \<noteq> COMPETITIVE_HOLD \<or> actions s \<noteq> []
   \<Longrightarrow> evaluateStrategy tn rnd1 ctx s = evaluateStrategy tn rnd2 ctx s"
  by (cases "stype s") (auto simp: evaluateStrategy_def executeStrategyByType_def)

text \<open>
  C4. Two evaluations of the same active competitive-hold strategy on the same context:
  when every draw of the first is 0 the proposal is the market minimum 1000, when every
  draw of the second is 0.5 it is 1500.
\<close>

theorem evaluateStrategy_random_outcome:
  "evaluateStrategy noStringNumbers (\<lambda>i. 0) rank4Context holdStrategy
     = Inr (Some \<lparr>price = Fin 1000, reason = ReasonCompetitorMedian,
                  confidence = Some (8 / 10)\<rparr>)
   \<and> evaluateStrategy noStringNumbers (\<lambda>i. 1 / 2) rank4Context holdStrategy
     = Inr (Some \<lparr>price = Fin 1500, reason = ReasonCompetitorMedian,
                  confidence = Some (8 / 10)\<rparr>)"
  by (simp add: evaluateStrategy_def holdStrategy_def checkStopConditions_def
      executeStrategyByType_def CompetitiveHoldGenerated_execute_def generateTopPrices_def
      rank4Context_def removeLowest_def median_def upt_rec)

section \<open>Properties of the cooldown gate\<close>

lemma shopWithA_rows:
  "skuStrategyTable shopWithA
   = [\<lparr>ss_skuId = ''sku-1'', ss_strategyId = ''A'', ss_active = True\<rparr>]"
  by (simp add: shopWithA_def emptyShop_def activateForSKU_def deactivateStatement_def upsertStatement_def findStrategyOfUser_def
      strategyRow_def deactivateAll_def hasAttachment_def)

lemma shopWithA_other:
  "strategyTable shopWithA = strategyTable emptyShop
   \<and> skuTable shopWithA = skuTable emptyShop
   \<and> priceHistoryTable shopWithA = priceHistoryTable emptyShop"
  by (simp add: shopWithA_def emptyShop_def activateForSKU_def deactivateStatement_def upsertStatement_def findStrategyOfUser_def
      strategyRow_def deactivateAll_def hasAttachment_def)

lemma shopWithB_rows:
  "skuStrategyTable shopWithB
   = [\<lparr>ss_skuId = ''sku-1'', ss_strategyId = ''A'', ss_active = False\<rparr>,
      \<lparr>ss_skuId = ''sku-1'', ss_strategyId = ''B'', ss_active = True\<rparr>]"
  by (simp add: shopWithB_def activateForSKU_def deactivateStatement_def upsertStatement_def findStrategyOfUser_def shopWithA_rows
      shopWithA_other emptyShop_def strategyRow_def deactivateAll_def hasAttachment_def)

lemma shopWithB_other:
  "strategyTable shopWithB = strategyTable emptyShop
   \<and> skuTable shopWithB = skuTable emptyShop
   \<and> priceHistoryTable shopWithB = priceHistoryTable emptyShop"
  by (simp add: shopWithB_def activateForSKU_def deactivateStatement_def upsertStatement_def findStrategyOfUser_def shopWithA_rows
      shopWithA_other emptyShop_def strategyRow_def deactivateAll_def hasAttachment_def)

lemma lastChange_sku1:
  "findLastChange shopWithA ''sku-1'' = Some \<lparr>ph_skuId = ''sku-1'', ph_time = 1000000\<rparr>
   \<and> findLastChange shopWithB ''sku-1'' = Some \<lparr>ph_skuId = ''sku-1'', ph_time = 1000000\<rparr>"
  by (simp add: findLastChange_def shopWithA_other shopWithB_other emptyShop_def)

text \<open>Whenever the active strategy does not store a cooldown of 0, the gate rejects
  exactly when there is a last change and less than the cooldown has passed since.\<close>

lemma checkCooldown_claimed:
  assumes "\<forall>s. findActiveStrategy db skuId = Some s \<longrightarrow> cooldownMinutes s \<noteq> 0"
  shows "(\<not> checkCooldown db now skuId)
         = (\<exists>lastChange. findLastChange db skuId = Some lastChange
              \<and> now - ph_time lastChange < claimedCooldownMinutes db skuId * 60 * 1000)"
proof (cases "findLastChange db skuId")
  case None
  then show ?thesis by (simp add: checkCooldown_def)
next
  case (Some lc)
  have "getCooldownPeriod db skuId = claimedCooldownMinutes db skuId * 60 * 1000"
    using assms by (cases "findActiveStrategy db skuId")
      (auto simp: getCooldownPeriod_def claimedCooldownMinutes_def Let_def)
  then show ?thesis using Some by (auto simp: checkCooldown_def Let_def)
qed

lemma cooldown_360_examples:
  "\<not> checkCooldown shopWithA (1000000 + 1000) ''sku-1''
   \<and> checkCooldown shopWithA (1000000 + 361 * 60 * 1000) ''sku-1''
   \<and> checkCooldown shopWithA (1000000 + 1000) ''sku-3''"
  by (simp add: checkCooldown_def lastChange_sku1 getCooldownPeriod_def findActiveStrategy_def
      shopWithA_rows shopWithA_other emptyShop_def strategyRow_def
      DEFAULT_COOLDOWN_MINUTES_def findLastChange_def)

text \<open>
  C7. The SKU's active strategy \<open>B\<close> has a cooldown of 0 minutes and the last price change
  was one second ago. One second is not less than 0 minutes, but the gate rejects the
  signal: a stored 0 is replaced by the default of 360 minutes.
\<close>

theorem cooldown_zero_rejected:
  "findActiveStrategy shopWithB ''sku-1'' = Some (strategyRow ''B'' 0)
   \<and> cooldownMinutes (strategyRow ''B'' 0) = 0
   \<and> findLastChange shopWithB ''sku-1'' = Some \<lparr>ph_skuId = ''sku-1'', ph_time = 1000000\<rparr>
   \<and> \<not> (1001000 - 1000000 < (0 :: int) * 60 * 1000)
   \<and> \<not> checkCooldown shopWithB 1001000 ''sku-1''"
proof -
  have s: "findActiveStrategy shopWithB ''sku-1'' = Some (strategyRow ''B'' 0)"
    by (simp add: findActiveStrategy_def shopWithB_rows shopWithB_other emptyShop_def
        strategyRow_def)
  have c: "cooldownMinutes (strategyRow ''B'' 0) = 0" by (simp add: strategyRow_def)
  have "getCooldownPeriod shopWithB ''sku-1'' = 21600000"
    by (simp add: getCooldownPeriod_def s c DEFAULT_COOLDOWN_MINUTES_def)
  then have "\<not> checkCooldown shopWithB 1001000 ''sku-1''"
    by (simp add: checkCooldown_def lastChange_sku1)
  then show ?thesis using s c lastChange_sku1 by simp
qed

section \<open>Properties of the attachment table\<close>

text \<open>A request that is served alone keeps the invariant of the table and leaves exactly
  the activated attachment active for the SKU.\<close>

lemma keys_deactivateAll: "map keyOf (deactivateAll rows k) = map keyOf rows"
  by (induction rows) (simp_all add: deactivateAll_def keyOf_def)

lemma keys_setActive: "map keyOf (setActive rows k sid) = map keyOf rows"
  by (induction rows) (simp_all add: setActive_def keyOf_def)

lemma active_deactivateAll:
  "filter (\<lambda>r. ss_skuId r = j \<and> ss_active r) (deactivateAll rows k)
   = (if j = k then [] else filter (\<lambda>r. ss_skuId r = j \<and> ss_active r) rows)"
  by (induction rows) (auto simp: deactivateAll_def)

lemma hasAttachment_iff: "hasAttachment rows k sid = ((k, sid) \<in> set (map keyOf rows))"
  by (induction rows) (auto simp: hasAttachment_def keyOf_def)

lemma active_setActive_other:
  "j \<noteq> k \<Longrightarrow> filter (\<lambda>r. ss_skuId r = j \<and> ss_active r) (setActive rows k sid)
             = filter (\<lambda>r. ss_skuId r = j \<and> ss_active r) rows"
  by (induction rows) (auto simp: setActive_def)

lemma active_setActive_absent:
  "(k, sid) \<notin> set (map keyOf rows)
   \<Longrightarrow> filter (\<lambda>r. ss_skuId r = k \<and> ss_active r) (setActive rows k sid)
       = filter (\<lambda>r. ss_skuId r = k \<and> ss_active r) rows"
  by (induction rows) (auto simp: setActive_def keyOf_def)

lemma active_setActive_same:
  assumes "distinct (map keyOf rows)" and "(k, sid) \<in> set (map keyOf rows)"
    and "filter (\<lambda>r. ss_skuId r = k \<and> ss_active r) rows = []"
  shows "filter (\<lambda>r. ss_skuId r = k \<and> ss_active r) (setActive rows k sid)
         = [\<lparr>ss_skuId = k, ss_strategyId = sid, ss_active = True\<rparr>]"
  using assms
proof (induction rows)
  case Nil
  then show ?case by simp
next
  case (Cons r rows)
  show ?case
  proof (cases "keyOf r = (k, sid)")
    case True
    then have absent: "(k, sid) \<notin> set (map keyOf rows)" using Cons.prems(1) by auto
    have rest: "filter (\<lambda>r. ss_skuId r = k \<and> ss_active r) rows = []"
      using Cons.prems(3) by (auto split: if_splits)
    have "r\<lparr>ss_active := True\<rparr> = \<lparr>ss_skuId = k, ss_strategyId = sid, ss_active = True\<rparr>"
      using True by (cases r) (simp add: keyOf_def)
    then show ?thesis
      using True rest active_setActive_absent [OF absent]
      by (simp add: setActive_def keyOf_def)
  next
    case False
    then have mem: "(k, sid) \<in> set (map keyOf rows)" using Cons.prems(2) by auto
    have rest: "filter (\<lambda>r. ss_skuId r = k \<and> ss_active r) rows = []"
      and inactive: "\<not> (ss_skuId r = k \<and> ss_active r)"
      using Cons.prems(3) by (auto split: if_splits)
    have "filter (\<lambda>r. ss_skuId r = k \<and> ss_active r) (setActive rows k sid)
          = [\<lparr>ss_skuId = k, ss_strategyId = sid, ss_active = True\<rparr>]"
      using Cons.IH Cons.prems(1) mem rest by simp
    then show ?thesis using False inactive by (auto simp: setActive_def keyOf_def)
  qed
qed

lemma length_filter_filter_le: "length (filter Q (filter P xs)) \<le> length (filter Q xs)"
  by (induction xs) (auto simp: le_SucI)

lemma invariant_filter: "tableInvariant rows \<Longrightarrow> tableInvariant (filter P rows)"
proof -
  assume inv: "tableInvariant rows"
  have len: "\<And>k. length (filter (\<lambda>r. ss_skuId r = k \<and> ss_active r) (filter P rows))
              \<le> length (filter (\<lambda>r. ss_skuId r = k \<and> ss_active r) rows)"
    by (rule length_filter_filter_le)
  have "distinct (map keyOf (filter P rows))"
    using inv by (simp add: tableInvariant_def distinct_map_filter)
  moreover have "\<forall>k. length (filter (\<lambda>r. ss_skuId r = k \<and> ss_active r) (filter P rows)) \<le> 1"
    using inv len unfolding tableInvariant_def by (meson le_trans)
  ultimately show ?thesis by (simp add: tableInvariant_def)
qed

lemma invariant_attach:
  assumes "tableInvariant rows" and "\<not> hasAttachment rows k sid"
  shows "tableInvariant (rows @ [\<lparr>ss_skuId = k, ss_strategyId = sid, ss_active = False\<rparr>])"
  using assms by (auto simp: tableInvariant_def hasAttachment_iff keyOf_def)

lemma invariant_deactivateAll:
  "tableInvariant rows \<Longrightarrow> tableInvariant (deactivateAll rows k)"
  by (simp add: tableInvariant_def keys_deactivateAll active_deactivateAll)

lemma activate_update:
  assumes "tableInvariant rows" and "hasAttachment (deactivateAll rows k) k sid"
  shows "tableInvariant (setActive (deactivateAll rows k) k sid)
         \<and> filter (\<lambda>r. ss_skuId r = k \<and> ss_active r) (setActive (deactivateAll rows k) k sid)
           = [\<lparr>ss_skuId = k, ss_strategyId = sid, ss_active = True\<rparr>]"
proof -
  let ?rows = "deactivateAll rows k"
  have d: "distinct (map keyOf ?rows)"
    using assms(1) by (simp add: tableInvariant_def keys_deactivateAll)
  have m: "(k, sid) \<in> set (map keyOf ?rows)" using assms(2) by (simp add: hasAttachment_iff)
  have n: "filter (\<lambda>r. ss_skuId r = k \<and> ss_active r) ?rows = []"
    by (simp add: active_deactivateAll)
  have one: "filter (\<lambda>r. ss_skuId r = k \<and> ss_active r) (setActive ?rows k sid)
             = [\<lparr>ss_skuId = k, ss_strategyId = sid, ss_active = True\<rparr>]"
    by (rule active_setActive_same [OF d m n])
  have "\<And>j. length (filter (\<lambda>r. ss_skuId r = j \<and> ss_active r) (setActive ?rows k sid)) \<le> 1"
  proof -
    fix j
    show "length (filter (\<lambda>r. ss_skuId r = j \<and> ss_active r) (setActive ?rows k sid)) \<le> 1"
    proof (cases "j = k")
      case True
      then show ?thesis using one by simp
    next
      case False
      then show ?thesis
        using assms(1) by (simp add: active_setActive_other active_deactivateAll tableInvariant_def)
    qed
  qed
  then show ?thesis using d one by (simp add: tableInvariant_def keys_setActive)
qed

lemma activate_create:
  assumes "tableInvariant rows" and "\<not> hasAttachment (deactivateAll rows k) k sid"
  shows "tableInvariant (deactivateAll rows k
                         @ [\<lparr>ss_skuId = k, ss_strategyId = sid, ss_active = True\<rparr>])
         \<and> filter (\<lambda>r. ss_skuId r = k \<and> ss_active r)
             (deactivateAll rows k @ [\<lparr>ss_skuId = k, ss_strategyId = sid, ss_active = True\<rparr>])
           = [\<lparr>ss_skuId = k, ss_strategyId = sid, ss_active = True\<rparr>]"
proof -
  let ?rows = "deactivateAll rows k"
  have d: "distinct (map keyOf ?rows)"
    using assms(1) by (simp add: tableInvariant_def keys_deactivateAll)
  have m: "(k, sid) \<notin> set (map keyOf ?rows)" using assms(2) by (simp add: hasAttachment_iff)
  have "\<And>j. length (filter (\<lambda>r. ss_skuId r = j \<and> ss_active r)
                (?rows @ [\<lparr>ss_skuId = k, ss_strategyId = sid, ss_active = True\<rparr>])) \<le> 1"
    using assms(1) by (simp add: active_deactivateAll tableInvariant_def)
  then show ?thesis
    using d m by (simp add: tableInvariant_def active_deactivateAll keyOf_def)
qed

lemma activateForSKU_invariant:
  assumes "tableInvariant (skuStrategyTable db)"
  shows "tableInvariant (skuStrategyTable (snd (activateForSKU user sid k db)))"
  using assms activate_update [of "skuStrategyTable db" k sid]
    activate_create [of "skuStrategyTable db" k sid]
    invariant_deactivateAll [of "skuStrategyTable db" k]
  by (auto simp: activateForSKU_def deactivateStatement_def upsertStatement_def Let_def
      split: option.splits)

lemma activateForSKU_exactly_one:
  assumes "tableInvariant (skuStrategyTable db)"
    and "activateForSKU user sid k db = (OK, db')"
  shows "activeAttachments db' k = [\<lparr>ss_skuId = k, ss_strategyId = sid, ss_active = True\<rparr>]"
  using assms activate_update [of "skuStrategyTable db" k sid]
    activate_create [of "skuStrategyTable db" k sid]
  by (auto simp: activateForSKU_def deactivateStatement_def upsertStatement_def
      activeAttachments_def Let_def split: option.splits if_splits)

lemma attachToSKU_invariant:
  assumes "tableInvariant (skuStrategyTable db)"
  shows "tableInvariant (skuStrategyTable (snd (attachToSKU user sid k db)))"
  using assms invariant_attach [of "skuStrategyTable db" k sid]
  by (auto simp: attachToSKU_def split: option.splits)

text \<open>The interleaved run: the state after each of the four statements.\<close>

lemma shopBothDeactivated_rows:
  "skuStrategyTable shopBothDeactivated
   = [\<lparr>ss_skuId = ''sku-1'', ss_strategyId = ''A'', ss_active = False\<rparr>]"
  by (simp add: shopBothDeactivated_def deactivateStatement_def deactivateAll_def
      shopWithA_rows)

lemma shopBothDeactivated_other:
  "strategyTable shopBothDeactivated = strategyTable emptyShop
   \<and> skuTable shopBothDeactivated = skuTable emptyShop"
  by (simp add: shopBothDeactivated_def deactivateStatement_def shopWithA_other)

lemma upsert_A_interleaved:
  "upsertStatement ''A'' ''sku-1'' shopBothDeactivated
   = (OK, shopBothDeactivated\<lparr>skuStrategyTable :=
            [\<lparr>ss_skuId = ''sku-1'', ss_strategyId = ''A'', ss_active = True\<rparr>]\<rparr>)"
  by (simp add: upsertStatement_def shopBothDeactivated_rows hasAttachment_def setActive_def)

lemma upsert_B_interleaved:
  "upsertStatement ''B'' ''sku-1''
     (shopBothDeactivated\<lparr>skuStrategyTable :=
        [\<lparr>ss_skuId = ''sku-1'', ss_strategyId = ''A'', ss_active = True\<rparr>]\<rparr>)
   = (OK, shopBothDeactivated\<lparr>skuStrategyTable :=
            [\<lparr>ss_skuId = ''sku-1'', ss_strategyId = ''A'', ss_active = True\<rparr>,
             \<lparr>ss_skuId = ''sku-1'', ss_strategyId = ''B'', ss_active = True\<rparr>]\<rparr>)"
  by (simp add: upsertStatement_def hasAttachment_def shopBothDeactivated_other emptyShop_def
      strategyRow_def)

lemma shopInterleaved_rows:
  "skuStrategyTable shopInterleaved
   = [\<lparr>ss_skuId = ''sku-1'', ss_strategyId = ''A'', ss_active = True\<rparr>,
      \<lparr>ss_skuId = ''sku-1'', ss_strategyId = ''B'', ss_active = True\<rparr>]"
  by (simp add: shopInterleaved_def upsert_A_interleaved upsert_B_interleaved)

lemma owner_has_strategies:
  "strategyTable db = strategyTable emptyShop
   \<Longrightarrow> findStrategyOfUser db ''A'' ''user-1'' \<noteq> None
       \<and> findStrategyOfUser db ''B'' ''user-1'' \<noteq> None"
  by (simp add: findStrategyOfUser_def emptyShop_def strategyRow_def)

lemma shopWithA_reachable: "reachable (shopWithA, [])"
proof -
  have r0: "reachable (emptyShop, [])"
    by (rule reachable.initial) (simp add: emptyShop_def)
  have s: "findStrategyOfUser emptyShop ''A'' ''user-1'' \<noteq> None"
    using owner_has_strategies [of emptyShop] by simp
  have r1: "reachable (deactivateStatement ''sku-1'' emptyShop, [(''A'', ''sku-1'')])"
    using reachable.activate_first [OF r0 s, of "''sku-1''"] by simp
  have "reachable (snd (upsertStatement ''A'' ''sku-1'' (deactivateStatement ''sku-1'' emptyShop)),
          remove1 (''A'', ''sku-1'') [(''A'', ''sku-1'')])"
    using r1 by (rule reachable.activate_second) simp
  moreover have "shopWithA
      = snd (upsertStatement ''A'' ''sku-1'' (deactivateStatement ''sku-1'' emptyShop))"
    using s by (auto simp: shopWithA_def activateForSKU_def)
  ultimately show ?thesis by simp
qed

lemma shopInterleaved_reachable: "reachable (shopInterleaved, [])"
proof -
  have sB: "findStrategyOfUser shopWithA ''B'' ''user-1'' \<noteq> None"
    using owner_has_strategies [of shopWithA] shopWithA_other by simp
  have r1: "reachable (deactivateStatement ''sku-1'' shopWithA, [(''B'', ''sku-1'')])"
    using reachable.activate_first [OF shopWithA_reachable sB, of "''sku-1''"] by simp
  have sA: "findStrategyOfUser (deactivateStatement ''sku-1'' shopWithA) ''A'' ''user-1'' \<noteq> None"
    using owner_has_strategies [of "deactivateStatement ''sku-1'' shopWithA"] shopWithA_other
    by (simp add: deactivateStatement_def)
  have r2: "reachable (shopBothDeactivated, [(''B'', ''sku-1''), (''A'', ''sku-1'')])"
    using reachable.activate_first [OF r1 sA, of "''sku-1''"]
    by (simp add: shopBothDeactivated_def)
  have "reachable (snd (upsertStatement ''A'' ''sku-1'' shopBothDeactivated),
          remove1 (''A'', ''sku-1'') [(''B'', ''sku-1''), (''A'', ''sku-1'')])"
    using r2 by (rule reachable.activate_second) simp
  then have r3: "reachable (snd (upsertStatement ''A'' ''sku-1'' shopBothDeactivated),
                   [(''B'', ''sku-1'')])"
    by simp
  have "reachable (snd (upsertStatement ''B'' ''sku-1''
                     (snd (upsertStatement ''A'' ''sku-1'' shopBothDeactivated))),
          remove1 (''B'', ''sku-1'') [(''B'', ''sku-1'')])"
    using r3 by (rule reachable.activate_second) simp
  then show ?thesis by (simp add: shopInterleaved_def)
qed

text \<open>
  C8. Strategy \<open>A\<close> is the one active attachment of the SKU. A request to activate \<open>B\<close> and
  a request to activate \<open>A\<close> again are served at the same time, and both write their
  deactivation before either writes its upsert. Both upserts succeed, and in the state
  reached the SKU has two active attachments, \<open>A\<close> and \<open>B\<close>.
\<close>

theorem interleaved_activation_two_active:
  "reachable (shopWithA, [])
   \<and> activeAttachments shopWithA ''sku-1''
       = [\<lparr>ss_skuId = ''sku-1'', ss_strategyId = ''A'', ss_active = True\<rparr>]
   \<and> reachable (shopInterleaved, [])
   \<and> fst (upsertStatement ''A'' ''sku-1'' shopBothDeactivated) = OK
   \<and> fst (upsertStatement ''B'' ''sku-1''
             (snd (upsertStatement ''A'' ''sku-1'' shopBothDeactivated))) = OK
   \<and> activeAttachments shopInterleaved ''sku-1''
       = [\<lparr>ss_skuId = ''sku-1'', ss_strategyId = ''A'', ss_active = True\<rparr>,
          \<lparr>ss_skuId = ''sku-1'', ss_strategyId = ''B'', ss_active = True\<rparr>]"
  using shopWithA_reachable shopInterleaved_reachable
  by (simp add: activeAttachments_def shopWithA_rows shopInterleaved_rows
      upsert_A_interleaved upsert_B_interleaved)

end
